theory Spec2Isabelle
  imports Complex_Main
begin

section \<open>The tensor substrate\<close>

text \<open>
  \<^verbatim>\<open>cycle_gan.py\<close> orchestrates collaborators it does not define: the tensor library
  (tensors, automatic differentiation, the Adam optimiser, serialisation), the two network
  classes of \<^verbatim>\<open>networks\<close> and the \<^verbatim>\<open>EpochTracker\<close> of \<^verbatim>\<open>utils\<close>. The controller
  never looks inside a tensor, so tensors are terms that record which operation produced them from
  which operands: two tensors are equal exactly when they were computed the same way. Floating
  point values are never computed; the two constants of the source (\<^verbatim>\<open>10.0\<close> and \<^verbatim>\<open>0.5\<close>)
  appear as \<^typ>\<open>real\<close> literals inside the terms.

  A parameter tensor of a network is a cell of a store, addressed by a number. A weight is the
  term \<open>Init p\<close> it was created with, or the result \<open>Adam w gs\<close> of an optimiser step on the
  weight \<open>w\<close> with the accumulated gradient contributions \<open>gs\<close>.
\<close>

datatype lossfn = BCELoss | L1Loss | FlagLoss

datatype tensor =
    Batch nat
  | To string tensor
  | Detach tensor
  | Data tensor
  | NoGrad tensor
  | Out nat "wt list" "nat list" tensor
  | CritFlag lossfn tensor bool
  | CritPair lossfn tensor tensor
  | Add tensor tensor
  | Scale tensor real
  | Cat "tensor list" int
  | Number int
and wt =
    Init nat
  | Adam wt "tensor list"

text \<open>
  \<open>Batch n\<close> is a data batch handed in by the caller. \<open>To d t\<close> is \<^verbatim>\<open>t.to(d)\<close>,
  \<open>Detach t\<close> is \<^verbatim>\<open>t.detach()\<close>, \<open>Data t\<close> is \<^verbatim>\<open>t.data\<close>. \<open>Out n ws ps t\<close> is the output
  of network \<open>n\<close> on input \<open>t\<close>, computed with the weights \<open>ws\<close>, where \<open>ps\<close> are the
  parameters of the network that had gradient tracking on when it was called. \<open>NoGrad t\<close> is a
  result computed inside a \<^verbatim>\<open>torch.no_grad()\<close> scope. \<open>CritFlag c t b\<close> and
  \<open>CritPair c t u\<close> are the loss function \<open>c\<close> applied to \<open>t\<close> and a target, \<open>Add\<close> is
  \<^verbatim>\<open>+\<close>, \<open>Scale\<close> is \<^verbatim>\<open>*\<close> by a float, \<open>Cat ts d\<close> is \<^verbatim>\<open>torch.cat(ts, d)\<close>, \<open>Number k\<close> is the
  Python number \<open>k\<close> (the loss attributes start as \<^verbatim>\<open>0\<close>).

  \<open>BCELoss\<close> and \<open>L1Loss\<close> are the two loss modules the constructor creates
  (\<^verbatim>\<open>nn.BCELoss()\<close>, \<^verbatim>\<open>nn.L1Loss()\<close>); both take a tensor as their target. The criterion
  attributes are ordinary attributes, which can be assigned from outside: \<open>FlagLoss\<close> stands for
  a criterion that takes a Python \<^verbatim>\<open>bool\<close> as its target. Nothing in \<^verbatim>\<open>cycle_gan.py\<close>
  creates one.

  The parameters a backward pass from a tensor reaches: every operation passes the history of
  its operands on, except \<^verbatim>\<open>detach\<close>, \<^verbatim>\<open>.data\<close> and a no-grad scope, which cut it.
\<close>

fun leaves :: "tensor \<Rightarrow> nat set" where
  "leaves (Batch n) = {}"
| "leaves (To d t) = leaves t"
| "leaves (Detach t) = {}"
| "leaves (Data t) = {}"
| "leaves (NoGrad t) = {}"
| "leaves (Out n ws ps t) = set ps \<union> leaves t"
| "leaves (CritFlag c t b) = leaves t"
| "leaves (CritPair c t u) = leaves t \<union> leaves u"
| "leaves (Add t u) = leaves t \<union> leaves u"
| "leaves (Scale t c) = leaves t"
| "leaves (Cat ts d) = (\<Union>t \<in> set ts. leaves t)"
| "leaves (Number k) = {}"

record param =
  weight :: wt
  grad :: "tensor list option"
  requires_grad :: bool

record net =
  net_id :: nat
  net_params :: "nat list"

record optimizer =
  opt_params :: "nat list"
  lr :: real
  betas :: "real \<times> real"

datatype blob =
    StateDict "wt list"
  | Picture tensor nat bool
  | Marker int int
  | Corrupt

datatype event =
    Call nat tensor
  | RequiresGrad nat bool
  | ZeroGrad "nat list"
  | Backward tensor
  | Step "nat list"
  | Load string
  | LoadStateDict nat
  | Save string

text \<open>
  The failures of the specification's taxonomy, Python's own \<^verbatim>\<open>AttributeError\<close> for an
  attribute that is not there (of the object, or of a \<^verbatim>\<open>bool\<close> or a \<^verbatim>\<open>None\<close> that was taken
  for a tensor), and the \<^verbatim>\<open>RuntimeError\<close> of a backward pass on a tensor without gradient
  history. The source defines no exception class and catches nothing:
  \<open>CheckpointLoadError\<close> stands for whatever \<^verbatim>\<open>torch.load\<close> or \<^verbatim>\<open>load_state_dict\<close>
  raise, \<open>UninitializedInputError\<close> for a module called on \<^verbatim>\<open>None\<close>,
  \<open>ShapeMismatchError\<close> for a network refusing its input, \<open>IOError\<close> for a failed write.
\<close>

datatype error =
    AttributeError
  | UninitializedInputError
  | CheckpointLoadError
  | ShapeMismatchError
  | IOError
  | RuntimeError

text \<open>
  Everything outside the controller object: the parameter store, the global gradient mode, the
  files, and a trace of the calls made to the substrate, in order. \<open>accepts n t\<close> says whether
  network \<open>n\<close> takes the input \<open>t\<close> (its shape fits); \<open>writable\<close> says which paths can be
  written. \<open>generator_size\<close> and \<open>discriminator_size\<close> are the numbers of parameter tensors of
  the two architectures of \<^verbatim>\<open>networks\<close>.
\<close>

record world =
  params :: "nat \<Rightarrow> param"
  next_param :: nat
  next_net :: nat
  grad_enabled :: bool
  files :: "string \<Rightarrow> blob option"
  writable :: "string \<Rightarrow> bool"
  accepts :: "nat \<Rightarrow> tensor \<Rightarrow> bool"
  generator_size :: nat
  discriminator_size :: nat
  trace :: "event list"

definition emit :: "event \<Rightarrow> world \<Rightarrow> world" where
  "emit e w = w\<lparr>trace := trace w @ [e]\<rparr>"

definition record_op :: "world \<Rightarrow> tensor \<Rightarrow> tensor" where
  "record_op w t = (if grad_enabled w then t else NoGrad t)"

text \<open>The differentiable operations of the library, as the gradient mode records them.\<close>

definition tensor_to :: "world \<Rightarrow> string \<Rightarrow> tensor \<Rightarrow> tensor" where
  "tensor_to w d t = record_op w (To d t)"

definition tensor_add :: "world \<Rightarrow> tensor \<Rightarrow> tensor \<Rightarrow> tensor" where
  "tensor_add w t u = record_op w (Add t u)"

definition tensor_scale :: "world \<Rightarrow> tensor \<Rightarrow> real \<Rightarrow> tensor" where
  "tensor_scale w t c = record_op w (Scale t c)"

definition tensor_cat :: "world \<Rightarrow> tensor list \<Rightarrow> int \<Rightarrow> tensor" where
  "tensor_cat w ts d = record_op w (Cat ts d)"

definition loss_flag :: "world \<Rightarrow> lossfn \<Rightarrow> tensor \<Rightarrow> bool \<Rightarrow> tensor" where
  "loss_flag w c t b = record_op w (CritFlag c t b)"

definition loss_pair :: "world \<Rightarrow> lossfn \<Rightarrow> tensor \<Rightarrow> tensor \<Rightarrow> tensor" where
  "loss_pair w c t u = record_op w (CritPair c t u)"

definition new_net :: "nat \<Rightarrow> world \<Rightarrow> net \<times> world" where
  "new_net k w =
     (let ps = [next_param w ..< next_param w + k]
      in (\<lparr>net_id = next_net w, net_params = ps\<rparr>,
          w\<lparr>params := (\<lambda>p. if p \<in> set ps
                              then \<lparr>weight = Init p, grad = None, requires_grad = True\<rparr>
                              else params w p),
            next_param := next_param w + k,
            next_net := Suc (next_net w)\<rparr>))"

text \<open>
  Modelled from the spec: the network classes of \<^verbatim>\<open>networks\<close> are missing. A network is
  an opaque module with a tensor-in, tensor-out call and a parameter set; calling it on undefined
  input fails with \<open>UninitializedInputError\<close>, on an input it does not take with
  \<open>ShapeMismatchError\<close>. A call changes no parameter.
\<close>

definition state_dict :: "net \<Rightarrow> world \<Rightarrow> wt list" where
  "state_dict n w = map (\<lambda>p. weight (params w p)) (net_params n)"

definition tracked :: "net \<Rightarrow> world \<Rightarrow> nat list" where
  "tracked n w = filter (\<lambda>p. requires_grad (params w p)) (net_params n)"

definition net_output :: "world \<Rightarrow> net \<Rightarrow> tensor \<Rightarrow> tensor" where
  "net_output w n t = record_op w (Out (net_id n) (state_dict n w) (tracked n w) t)"

definition call :: "net \<Rightarrow> tensor option \<Rightarrow> world \<Rightarrow> (error + tensor) \<times> world" where
  "call n x w =
     (case x of
        None \<Rightarrow> (Inl UninitializedInputError, w)
      | Some t \<Rightarrow>
          if \<not> accepts w (net_id n) t then (Inl ShapeMismatchError, emit (Call (net_id n) t) w)
          else (Inr (net_output w n t), emit (Call (net_id n) t) w))"

definition CycleGanResnetGenerator :: "world \<Rightarrow> net \<times> world" where
  "CycleGanResnetGenerator w = new_net (generator_size w) w"

definition CycleGanDiscriminator :: "world \<Rightarrow> net \<times> world" where
  "CycleGanDiscriminator w = new_net (discriminator_size w) w"

text \<open>
  A criterion called with a Python \<^verbatim>\<open>bool\<close> as its target, as both methods that use the
  adversarial criterion call it. The loss modules of the library start by comparing
  \<^verbatim>\<open>target.size()\<close> with \<^verbatim>\<open>input.size()\<close>, and a \<^verbatim>\<open>bool\<close> has no \<^verbatim>\<open>size\<close>: they
  raise \<^verbatim>\<open>AttributeError\<close> on every such call, whatever the input. Only a criterion made for
  a flag builds the loss term. Called with two tensors, a criterion fails on \<^verbatim>\<open>None\<close> and
  otherwise builds the loss term.
\<close>

definition criterion_flag :: "lossfn \<Rightarrow> tensor option \<Rightarrow> bool \<Rightarrow> world \<Rightarrow> (error + tensor) \<times> world" where
  "criterion_flag c x b w =
     (case c of
        FlagLoss \<Rightarrow>
          (case x of None \<Rightarrow> (Inl UninitializedInputError, w)
           | Some t \<Rightarrow> (Inr (loss_flag w c t b), w))
      | _ \<Rightarrow> (Inl AttributeError, w))"

definition criterion_pair :: "lossfn \<Rightarrow> tensor option \<Rightarrow> tensor option \<Rightarrow> world \<Rightarrow> (error + tensor) \<times> world" where
  "criterion_pair c x y w =
     (case x of None \<Rightarrow> (Inl UninitializedInputError, w)
      | Some t \<Rightarrow>
         (case y of None \<Rightarrow> (Inl UninitializedInputError, w)
          | Some u \<Rightarrow> (Inr (loss_pair w c t u), w)))"

text \<open>
  \<^verbatim>\<open>loss.backward()\<close> raises \<^verbatim>\<open>RuntimeError\<close> when the loss has no gradient history:
  it was computed in a no-grad scope, or from no parameter that has gradient tracking on.
  Otherwise it accumulates one gradient contribution into every parameter the loss reaches.
  \<^verbatim>\<open>zero_grad()\<close> clears the gradients of the optimiser's parameters; \<^verbatim>\<open>step()\<close> updates
  every parameter of the optimiser that holds a gradient.
\<close>

definition accumulate :: "tensor \<Rightarrow> world \<Rightarrow> world" where
  "accumulate l w =
     emit (Backward l)
       (w\<lparr>params := (\<lambda>p. if p \<in> leaves l
                           then (params w p)\<lparr>grad := Some (case grad (params w p) of
                                                             None \<Rightarrow> [l] | Some gs \<Rightarrow> gs @ [l])\<rparr>
                           else params w p)\<rparr>)"

definition backward :: "tensor \<Rightarrow> world \<Rightarrow> (error + unit) \<times> world" where
  "backward l w = (if leaves l = {} then (Inl RuntimeError, w) else (Inr (), accumulate l w))"

definition zero_grad :: "optimizer \<Rightarrow> world \<Rightarrow> world" where
  "zero_grad opt w =
     emit (ZeroGrad (opt_params opt))
       (w\<lparr>params := (\<lambda>p. if p \<in> set (opt_params opt) then (params w p)\<lparr>grad := None\<rparr>
                           else params w p)\<rparr>)"

definition step :: "optimizer \<Rightarrow> world \<Rightarrow> world" where
  "step opt w =
     emit (Step (opt_params opt))
       (w\<lparr>params := (\<lambda>p. if p \<in> set (opt_params opt)
                           then (case grad (params w p) of
                                   None \<Rightarrow> params w p
                                 | Some gs \<Rightarrow> (params w p)\<lparr>weight := Adam (weight (params w p)) gs\<rparr>)
                           else params w p)\<rparr>)"

definition set_param_requires_grad :: "nat \<Rightarrow> bool \<Rightarrow> world \<Rightarrow> world" where
  "set_param_requires_grad p b w =
     emit (RequiresGrad p b) (w\<lparr>params := (params w)(p := (params w p)\<lparr>requires_grad := b\<rparr>)\<rparr>)"

text \<open>
  Serialisation. \<^verbatim>\<open>torch.load\<close> fails on a missing file and on one that holds no state
  dictionary; \<^verbatim>\<open>load_state_dict\<close> fails when the dictionary does not fit the network, and
  otherwise overwrites the network's weights; writing fails where the path is not writable.
\<close>

definition torch_load :: "string \<Rightarrow> world \<Rightarrow> (error + wt list) \<times> world" where
  "torch_load path w =
     (case files w path of
        Some (StateDict ws) \<Rightarrow> (Inr ws, emit (Load path) w)
      | _ \<Rightarrow> (Inl CheckpointLoadError, emit (Load path) w))"

definition load_state_dict :: "net \<Rightarrow> wt list \<Rightarrow> world \<Rightarrow> (error + unit) \<times> world" where
  "load_state_dict n ws w =
     (if length ws \<noteq> length (net_params n) then (Inl CheckpointLoadError, w)
      else (Inr (),
            emit (LoadStateDict (net_id n))
              (w\<lparr>params := (\<lambda>p. case map_of (zip (net_params n) ws) p of
                                    None \<Rightarrow> params w p
                                  | Some v \<Rightarrow> (params w p)\<lparr>weight := v\<rparr>)\<rparr>)))"

definition write_file :: "string \<Rightarrow> blob \<Rightarrow> world \<Rightarrow> (error + unit) \<times> world" where
  "write_file path b w =
     (if writable w path then (Inr (), emit (Save path) (w\<lparr>files := (files w)(path := Some b)\<rparr>))
      else (Inl IOError, w))"


text \<open>
  Modelled from the spec: the \<^verbatim>\<open>EpochTracker\<close> of \<^verbatim>\<open>utils\<close> is missing. The existence
  of the marker file at construction time is what it reports as \<^verbatim>\<open>file_exists\<close>, and
  \<^verbatim>\<open>write\<close> updates the marker with the epoch and the iteration.
\<close>

record epoch_tracker =
  in_file :: string
  file_exists :: bool

definition EpochTracker :: "string \<Rightarrow> world \<Rightarrow> epoch_tracker" where
  "EpochTracker path w = \<lparr>in_file = path, file_exists = (files w path \<noteq> None)\<rparr>"

definition tracker_write :: "epoch_tracker \<Rightarrow> int \<Rightarrow> int \<Rightarrow> world \<Rightarrow> (error + unit) \<times> world" where
  "tracker_write t epoch iteration w = write_file (in_file t) (Marker epoch iteration) w"

text \<open>Python's \<^verbatim>\<open>"{}".format(i)\<close> for an integer: its decimal digits.\<close>

fun digits :: "nat \<Rightarrow> string" where
  "digits n = (if n < 10 then [''0123456789'' ! n]
               else digits (n div 10) @ [''0123456789'' ! (n mod 10)])"

declare digits.simps [simp del]

definition str_int :: "int \<Rightarrow> string" where
  "str_int i = (if i < 0 then CHR ''-'' # digits (nat (- i)) else digits (nat i))"

section \<open>The controller\<close>

text \<open>
  The object's attributes. \<^verbatim>\<open>__init__\<close> assigns the six sample tensors \<^verbatim>\<open>None\<close>, so they
  are options whose \<open>None\<close> is Python's. The attributes that \<^verbatim>\<open>__init__\<close> assigns only
  under \<^verbatim>\<open>if train:\<close> are options too, and there \<open>None\<close> means that the attribute does not
  exist: reading it raises \<^verbatim>\<open>AttributeError\<close>.
\<close>

record cyclegan =
  name :: string
  lambda_A :: real
  lambda_B :: real
  is_train :: bool
  device :: string
  file_prefix' :: string
  epoch_tracker :: epoch_tracker
  GenA :: net
  GenB :: net
  real_A :: "tensor option"
  real_B :: "tensor option"
  fake_A :: "tensor option"
  fake_B :: "tensor option"
  new_A :: "tensor option"
  new_B :: "tensor option"
  DisA :: "net option"
  DisB :: "net option"
  criterionGAN :: "lossfn option"
  criterionCycle :: "lossfn option"
  criterionIdt :: "lossfn option"
  optimizer_g :: "optimizer option"
  optimizer_d :: "optimizer option"
  optimizers :: "optimizer list option"
  loss_disA :: "tensor option"
  loss_disB :: "tensor option"
  loss_cycle_A :: "tensor option"
  loss_cycle_B :: "tensor option"
  loss_genA :: "tensor option"
  loss_genB :: "tensor option"
  loss_G :: "tensor option"

text \<open>
  A method runs on the object and the world and returns its result, or the exception that
  ended it, together with the object and the world as they are at that moment: an exception
  undoes nothing.
\<close>

type_synonym 'a action = "cyclegan \<times> world \<Rightarrow> (error + 'a) \<times> cyclegan \<times> world"

definition and_then :: "'a action \<Rightarrow> ('a \<Rightarrow> 'b action) \<Rightarrow> 'b action" where
  "and_then m f s = (case m s of (Inl e, s') \<Rightarrow> (Inl e, s') | (Inr x, s') \<Rightarrow> f x s')"

fun block :: "unit action list \<Rightarrow> unit action" where
  "block [] s = (Inr (), s)"
| "block (m # ms) s = and_then m (\<lambda>_. block ms) s"

definition return :: "'a \<Rightarrow> 'a action" where
  "return x s = (Inr x, s)"

definition attr :: "(cyclegan \<Rightarrow> 'a option) \<Rightarrow> 'a action" where
  "attr f s = (case f (fst s) of None \<Rightarrow> (Inl AttributeError, s) | Some x \<Rightarrow> (Inr x, s))"

definition assign :: "(cyclegan \<Rightarrow> cyclegan) \<Rightarrow> unit action" where
  "assign upd s = (Inr (), upd (fst s), snd s)"

definition lift :: "(world \<Rightarrow> (error + 'a) \<times> world) \<Rightarrow> 'a action" where
  "lift m s = (case m (snd s) of (r, w') \<Rightarrow> (r, fst s, w'))"

definition effect :: "(world \<Rightarrow> world) \<Rightarrow> unit action" where
  "effect m s = (Inr (), fst s, m (snd s))"

definition pure_op :: "(world \<Rightarrow> 'a) \<Rightarrow> 'a action" where
  "pure_op m s = (Inr (m (snd s)), s)"

definition call_on :: "(cyclegan \<Rightarrow> net) \<Rightarrow> (cyclegan \<Rightarrow> tensor option) \<Rightarrow> tensor action" where
  "call_on g x s = lift (call (g (fst s)) (x (fst s))) s"

text \<open>\<^verbatim>\<open>x.detach()\<close> and \<^verbatim>\<open>x.data\<close> where \<^verbatim>\<open>x\<close> may be \<^verbatim>\<open>None\<close>.\<close>

definition detach :: "tensor option \<Rightarrow> tensor action" where
  "detach x s = (case x of None \<Rightarrow> (Inl AttributeError, s) | Some t \<Rightarrow> (Inr (Detach t), s))"

definition data_of :: "(cyclegan \<Rightarrow> tensor option) \<Rightarrow> tensor action" where
  "data_of x s = (case x (fst s) of None \<Rightarrow> (Inl AttributeError, s) | Some t \<Rightarrow> (Inr (Data t), s))"

subsection \<open>Construction\<close>

definition load_into :: "(cyclegan \<Rightarrow> net option) \<Rightarrow> string \<Rightarrow> unit action" where
  "load_into n file =
     and_then (attr n) (\<lambda>m.
     and_then (\<lambda>s. lift (torch_load (file_prefix' (fst s) @ file)) s) (\<lambda>sd.
     lift (load_state_dict m sd)))"

text \<open>
  \<^verbatim>\<open>__init__\<close> in its two halves: the assignments, which cannot fail, and the loading of
  the checkpoint, which runs when the epoch marker exists. The \<^verbatim>\<open>options\<close> argument is
  never read.
\<close>

definition construct ::
  "string \<Rightarrow> string \<Rightarrow> real \<Rightarrow> real \<Rightarrow> bool \<Rightarrow> world \<Rightarrow> cyclegan \<times> world" where
  "construct dev prefix learning_rate beta1 training w0 =
     (let tracker = EpochTracker (prefix @ ''epoch.txt'') w0;
          (gA, w1) = CycleGanResnetGenerator w0;
          (gB, w2) = CycleGanResnetGenerator w1;
          self = \<lparr>name = ''CycleGAN'', lambda_A = 10.0, lambda_B = 10.0,
                  is_train = training, device = dev, file_prefix' = prefix,
                  epoch_tracker = tracker, GenA = gA, GenB = gB,
                  real_A = None, real_B = None, fake_A = None, fake_B = None,
                  new_A = None, new_B = None,
                  DisA = None, DisB = None,
                  criterionGAN = None, criterionCycle = None, criterionIdt = None,
                  optimizer_g = None, optimizer_d = None, optimizers = None,
                  loss_disA = None, loss_disB = None, loss_cycle_A = None,
                  loss_cycle_B = None, loss_genA = None, loss_genB = None, loss_G = None\<rparr>
      in if training then
           (let (dA, w3) = CycleGanDiscriminator w2;
                (dB, w4) = CycleGanDiscriminator w3;
                og = \<lparr>opt_params = net_params gA @ net_params gB,
                      lr = learning_rate, betas = (beta1, 0.999)\<rparr>;
                od = \<lparr>opt_params = net_params dA @ net_params dB,
                      lr = learning_rate, betas = (beta1, 0.999)\<rparr>
            in (self\<lparr>DisA := Some dA, DisB := Some dB,
                     criterionGAN := Some BCELoss, criterionCycle := Some L1Loss,
                     criterionIdt := Some L1Loss,
                     optimizer_g := Some og, optimizer_d := Some od,
                     optimizers := Some [og, od],
                     loss_disA := Some (Number 0), loss_disB := Some (Number 0),
                     loss_cycle_A := Some (Number 0), loss_cycle_B := Some (Number 0),
                     loss_genA := Some (Number 0), loss_genB := Some (Number 0),
                     loss_G := Some (Number 0)\<rparr>, w4))
         else (self, w2))"

definition load_checkpoint :: "bool \<Rightarrow> unit action" where
  "load_checkpoint training =
     block ([load_into (\<lambda>c. Some (GenA c)) ''generator_a.pth'',
             load_into (\<lambda>c. Some (GenB c)) ''generator_b.pth''] @
            (if training then [load_into DisA ''discriminator_a.pth'',
                               load_into DisB ''discriminator_b.pth'']
             else []))"

definition init ::
  "'o \<Rightarrow> string \<Rightarrow> string \<Rightarrow> real \<Rightarrow> real \<Rightarrow> bool \<Rightarrow> world \<Rightarrow> (error + cyclegan) \<times> world" where
  "init options dev prefix learning_rate beta1 training w0 =
     (let (self, w) = construct dev prefix learning_rate beta1 training w0
      in if file_exists (epoch_tracker self) then
           (case load_checkpoint training (self, w) of
              (Inl e, _, w') \<Rightarrow> (Inl e, w')
            | (Inr _, self', w') \<Rightarrow> (Inr self', w'))
         else (Inr self, w))"

subsection \<open>The methods\<close>

definition set_input :: "tensor \<Rightarrow> tensor \<Rightarrow> unit action" where
  "set_input a b =
     block [(\<lambda>s. assign (real_A_update (\<lambda>_. Some (tensor_to (snd s) (device (fst s)) a))) s),
            (\<lambda>s. assign (real_B_update (\<lambda>_. Some (tensor_to (snd s) (device (fst s)) b))) s)]"

definition forward :: "unit action" where
  "forward =
     block [and_then (call_on GenA real_A) (\<lambda>y. assign (fake_B_update (\<lambda>_. Some y))),
            and_then (call_on GenB fake_B) (\<lambda>y. assign (new_A_update (\<lambda>_. Some y))),
            and_then (call_on GenB real_B) (\<lambda>y. assign (fake_A_update (\<lambda>_. Some y))),
            and_then (call_on GenA fake_A) (\<lambda>y. assign (new_B_update (\<lambda>_. Some y)))]"

definition backward_d :: "net \<Rightarrow> tensor option \<Rightarrow> tensor option \<Rightarrow> tensor action" where
  "backward_d netD real' fake =
     and_then (lift (call netD real')) (\<lambda>predict_real.
     and_then (attr criterionGAN) (\<lambda>c.
     and_then (lift (criterion_flag c (Some predict_real) True)) (\<lambda>loss_d_real.
     and_then (detach fake) (\<lambda>fake_detached.
     and_then (lift (call netD (Some fake_detached))) (\<lambda>predict_fake.
     and_then (attr criterionGAN) (\<lambda>c.
     and_then (lift (criterion_flag c (Some predict_fake) False)) (\<lambda>loss_d_fake.
     and_then (pure_op (\<lambda>w. tensor_scale w (tensor_add w loss_d_real loss_d_fake) 0.5))
       (\<lambda>loss_d.
     and_then (lift (backward loss_d)) (\<lambda>_.
     return loss_d)))))))))"

definition backward_g :: "unit action" where
  "backward_g =
     block [and_then (attr criterionGAN) (\<lambda>c.
            and_then (attr DisA) (\<lambda>d.
            and_then (call_on (\<lambda>_. d) fake_B) (\<lambda>p.
            and_then (lift (criterion_flag c (Some p) True)) (\<lambda>l.
            assign (loss_genA_update (\<lambda>_. Some l)))))),
            and_then (attr criterionGAN) (\<lambda>c.
            and_then (attr DisB) (\<lambda>d.
            and_then (call_on (\<lambda>_. d) fake_A) (\<lambda>p.
            and_then (lift (criterion_flag c (Some p) True)) (\<lambda>l.
            assign (loss_genB_update (\<lambda>_. Some l)))))),
            and_then (attr criterionCycle) (\<lambda>c.
            and_then (\<lambda>s. lift (criterion_pair c (new_A (fst s)) (real_A (fst s))) s) (\<lambda>l.
            (\<lambda>s. assign (loss_cycle_A_update
                           (\<lambda>_. Some (tensor_scale (snd s) l (lambda_A (fst s))))) s))),
            and_then (attr criterionCycle) (\<lambda>c.
            and_then (\<lambda>s. lift (criterion_pair c (new_B (fst s)) (real_B (fst s))) s) (\<lambda>l.
            (\<lambda>s. assign (loss_cycle_B_update
                           (\<lambda>_. Some (tensor_scale (snd s) l (lambda_B (fst s))))) s))),
            and_then (attr loss_genA) (\<lambda>a.
            and_then (attr loss_genB) (\<lambda>b.
            and_then (attr loss_cycle_A) (\<lambda>c.
            and_then (attr loss_cycle_B) (\<lambda>d.
            (\<lambda>s. assign (loss_G_update
                           (\<lambda>_. Some (tensor_add (snd s)
                                        (tensor_add (snd s) (tensor_add (snd s) a b) c) d))) s))))),
            and_then (attr loss_G) (\<lambda>l. lift (backward l))]"

fun set_requires_grad :: "net option list \<Rightarrow> bool \<Rightarrow> world \<Rightarrow> world" where
  "set_requires_grad [] requires w = w"
| "set_requires_grad (None # nets) requires w = set_requires_grad nets requires w"
| "set_requires_grad (Some n # nets) requires w =
     set_requires_grad nets requires
       (fold (\<lambda>p. set_param_requires_grad p requires) (net_params n) w)"

definition train :: "unit action" where
  "train =
     block [forward,
            and_then (attr DisA) (\<lambda>a. and_then (attr DisB) (\<lambda>b.
              effect (set_requires_grad [Some a, Some b] False))),
            and_then (attr optimizer_g) (\<lambda>opt. effect (zero_grad opt)),
            backward_g,
            and_then (attr optimizer_g) (\<lambda>opt. effect (step opt)),
            and_then (attr DisA) (\<lambda>a. and_then (attr DisB) (\<lambda>b.
              effect (set_requires_grad [Some a, Some b] True))),
            and_then (attr optimizer_d) (\<lambda>opt. effect (zero_grad opt)),
            and_then (attr DisA) (\<lambda>d.
            and_then (\<lambda>s. backward_d d (real_B (fst s)) (fake_B (fst s)) s) (\<lambda>l.
            assign (loss_disA_update (\<lambda>_. Some l)))),
            and_then (attr DisB) (\<lambda>d.
            and_then (\<lambda>s. backward_d d (real_A (fst s)) (fake_A (fst s)) s) (\<lambda>l.
            assign (loss_disB_update (\<lambda>_. Some l)))),
            and_then (attr optimizer_d) (\<lambda>opt. effect (step opt))]"

text \<open>
  \<^verbatim>\<open>with torch.no_grad():\<close> turns the gradient mode off for its body and restores it when the
  body ends, also when it ends in an exception.
\<close>

definition test :: "unit action" where
  "test s =
     (let prev = grad_enabled (snd s)
      in case forward (fst s, (snd s)\<lparr>grad_enabled := False\<rparr>) of
           (r, self, w) \<Rightarrow> (r, self, w\<lparr>grad_enabled := prev\<rparr>))"

definition save_progress :: "string \<Rightarrow> int \<Rightarrow> int \<Rightarrow> unit action" where
  "save_progress path epoch iteration =
     block [and_then (data_of real_A) (\<lambda>a.
            and_then (data_of fake_A) (\<lambda>b.
            and_then (data_of real_B) (\<lambda>c.
            and_then (data_of fake_B) (\<lambda>d.
            and_then (pure_op (\<lambda>w. tensor_cat w [a, b, c, d] (- 2))) (\<lambda>img_sample.
            lift (write_file (path @ str_int epoch @ ''_'' @ str_int iteration @ ''.png'')
                    (Picture img_sample 5 True))))))),
            (\<lambda>s. lift (write_file (file_prefix' (fst s) @ ''generator_a.pth'')
                         (StateDict (state_dict (GenA (fst s)) (snd s)))) s),
            (\<lambda>s. lift (write_file (file_prefix' (fst s) @ ''generator_b.pth'')
                         (StateDict (state_dict (GenB (fst s)) (snd s)))) s),
            and_then (attr DisA) (\<lambda>d.
              (\<lambda>s. lift (write_file (file_prefix' (fst s) @ ''discriminator_a.pth'')
                           (StateDict (state_dict d (snd s)))) s)),
            and_then (attr DisB) (\<lambda>d.
              (\<lambda>s. lift (write_file (file_prefix' (fst s) @ ''discriminator_b.pth'')
                           (StateDict (state_dict d (snd s)))) s)),
            (\<lambda>s. lift (tracker_write (epoch_tracker (fst s)) epoch iteration) s)]"


section \<open>Auxiliary definitions\<close>

text \<open>The parameters \<^verbatim>\<open>set_requires_grad\<close> visits, in the order it visits them.\<close>

fun parameters_of :: "net option list \<Rightarrow> nat list" where
  "parameters_of [] = []"
| "parameters_of (None # nets) = parameters_of nets"
| "parameters_of (Some n # nets) = net_params n @ parameters_of nets"

text \<open>
  Concrete states: a world without files in which every network takes every input, whose
  architectures have two parameter tensors per generator and one per discriminator; the controller
  built there for inference, and the one built for training.
\<close>

definition fresh_world :: world where
  "fresh_world =
     \<lparr>params = (\<lambda>p. \<lparr>weight = Init p, grad = None, requires_grad = True\<rparr>),
      next_param = 0, next_net = 0, grad_enabled = True,
      files = (\<lambda>_. None), writable = (\<lambda>_. True), accepts = (\<lambda>_ _. True),
      generator_size = 2, discriminator_size = 1, trace = []\<rparr>"

definition sampler :: cyclegan where
  "sampler =
     \<lparr>name = ''CycleGAN'', lambda_A = 10, lambda_B = 10,
      is_train = False, device = ''cpu'', file_prefix' = ''run/'',
      epoch_tracker = \<lparr>in_file = ''run/epoch.txt'', file_exists = False\<rparr>,
      GenA = \<lparr>net_id = 0, net_params = [0, 1]\<rparr>, GenB = \<lparr>net_id = 1, net_params = [2, 3]\<rparr>,
      real_A = None, real_B = None, fake_A = None, fake_B = None,
      new_A = None, new_B = None,
      DisA = None, DisB = None,
      criterionGAN = None, criterionCycle = None, criterionIdt = None,
      optimizer_g = None, optimizer_d = None, optimizers = None,
      loss_disA = None, loss_disB = None, loss_cycle_A = None,
      loss_cycle_B = None, loss_genA = None, loss_genB = None, loss_G = None\<rparr>"

definition trainer :: cyclegan where
  "trainer =
     sampler\<lparr>is_train := True,
       DisA := Some \<lparr>net_id = 2, net_params = [4]\<rparr>, DisB := Some \<lparr>net_id = 3, net_params = [5]\<rparr>,
       criterionGAN := Some BCELoss, criterionCycle := Some L1Loss, criterionIdt := Some L1Loss,
       optimizer_g := Some \<lparr>opt_params = [0, 1, 2, 3], lr = 1 / 5000, betas = (1 / 2, 999 / 1000)\<rparr>,
       optimizer_d := Some \<lparr>opt_params = [4, 5], lr = 1 / 5000, betas = (1 / 2, 999 / 1000)\<rparr>,
       optimizers := Some [\<lparr>opt_params = [0, 1, 2, 3], lr = 1 / 5000, betas = (1 / 2, 999 / 1000)\<rparr>,
                           \<lparr>opt_params = [4, 5], lr = 1 / 5000, betas = (1 / 2, 999 / 1000)\<rparr>],
       loss_disA := Some (Number 0), loss_disB := Some (Number 0),
       loss_cycle_A := Some (Number 0), loss_cycle_B := Some (Number 0),
       loss_genA := Some (Number 0), loss_genB := Some (Number 0), loss_G := Some (Number 0)\<rparr>"

text \<open>
  A checkpoint file fits a network of \<open>k\<close> parameter tensors when it exists and holds a state
  dictionary of \<open>k\<close> weights: it is neither missing nor malformed. \<open>stored\<close> reads the weights
  of such a file.
\<close>

definition fits :: "world \<Rightarrow> string \<Rightarrow> nat \<Rightarrow> bool" where
  "fits w path k = (case files w path of Some (StateDict ws) \<Rightarrow> length ws = k | _ \<Rightarrow> False)"

definition stored :: "world \<Rightarrow> string \<Rightarrow> wt list" where
  "stored w path = (case files w path of Some (StateDict ws) \<Rightarrow> ws | _ \<Rightarrow> [])"

text \<open>
  A world with a checkpoint whose marker and generator files are there and whose file
  \<^verbatim>\<open>discriminator_a.pth\<close> is missing.
\<close>

definition resumed_world :: world where
  "resumed_world =
     fresh_world\<lparr>files := (\<lambda>path.
        if path = ''run/epoch.txt'' then Some (Marker 3 0)
        else if path = ''run/generator_a.pth'' then Some (StateDict [Init 7, Init 8])
        else if path = ''run/generator_b.pth'' then Some (StateDict [Init 9, Init 10])
        else if path = ''run/discriminator_b.pth'' then Some (StateDict [Init 11])
        else None)\<rparr>"


text \<open>
  Predicates on methods, for the proofs: a method keeps an observation of the state when no run
  of it, failed or not, changes the observation; it fails when a condition holds if every run from
  a state where the condition holds ends in an exception. An observation is of the controller only
  when the world does not matter to it.
\<close>

definition keeps :: "(cyclegan \<times> world \<Rightarrow> 'x) \<Rightarrow> 'a action \<Rightarrow> bool" where
  "keeps obs m = (\<forall>s. obs (snd (m s)) = obs s)"

definition self_only :: "(cyclegan \<times> world \<Rightarrow> 'x) \<Rightarrow> bool" where
  "self_only obs = (\<forall>c w w'. obs (c, w) = obs (c, w'))"

definition fails_when :: "(cyclegan \<times> world \<Rightarrow> bool) \<Rightarrow> 'a action \<Rightarrow> bool" where
  "fails_when cond m = (\<forall>s. cond s \<longrightarrow> (\<exists>e. fst (m s) = Inl e))"

text \<open>
  An attribute is stable when no assignment to an intermediate tensor or to a loss changes it:
  these are the only attributes the methods other than \<^verbatim>\<open>set_input\<close> assign.
\<close>

definition stable :: "(cyclegan \<Rightarrow> 'x) \<Rightarrow> bool" where
  "stable g = (\<forall>c t. g (c\<lparr>fake_A := t\<rparr>) = g c \<and> g (c\<lparr>fake_B := t\<rparr>) = g c
                  \<and> g (c\<lparr>new_A := t\<rparr>) = g c \<and> g (c\<lparr>new_B := t\<rparr>) = g c
                  \<and> g (c\<lparr>loss_genA := t\<rparr>) = g c \<and> g (c\<lparr>loss_genB := t\<rparr>) = g c
                  \<and> g (c\<lparr>loss_cycle_A := t\<rparr>) = g c \<and> g (c\<lparr>loss_cycle_B := t\<rparr>) = g c
                  \<and> g (c\<lparr>loss_G := t\<rparr>) = g c
                  \<and> g (c\<lparr>loss_disA := t\<rparr>) = g c \<and> g (c\<lparr>loss_disB := t\<rparr>) = g c)"

text \<open>
  The lifetime of a controller: the client calls its methods in any order, and carries on with the
  object as it is after a call that raised.
\<close>

datatype invocation =
    SetInput tensor tensor
  | Forward
  | BackwardD net "tensor option" "tensor option"
  | BackwardG
  | Train
  | Test
  | SaveProgress string int int
  | SetRequiresGrad "net option list" bool

fun invoke :: "invocation \<Rightarrow> cyclegan \<times> world \<Rightarrow> cyclegan \<times> world" where
  "invoke (SetInput a b) s = snd (set_input a b s)"
| "invoke Forward s = snd (forward s)"
| "invoke (BackwardD n x y) s = snd (backward_d n x y s)"
| "invoke BackwardG s = snd (backward_g s)"
| "invoke Train s = snd (train s)"
| "invoke Test s = snd (test s)"
| "invoke (SaveProgress path epoch iteration) s = snd (save_progress path epoch iteration s)"
| "invoke (SetRequiresGrad nets b) s = (fst s, set_requires_grad nets b (snd s))"

fun is_set_input :: "invocation \<Rightarrow> bool" where
  "is_set_input (SetInput a b) = True"
| "is_set_input _ = False"


section \<open>Basic facts\<close>

lemmas action_defs = and_then_def return_def attr_def assign_def lift_def effect_def pure_op_def
  call_on_def detach_def data_of_def

lemmas term_defs = tensor_to_def tensor_add_def tensor_scale_def tensor_cat_def loss_flag_def
  loss_pair_def net_output_def record_op_def state_dict_def tracked_def

lemma block_step:
  "block (m # ms) s = (case m s of (Inl e, s') \<Rightarrow> (Inl e, s') | (Inr u, s') \<Rightarrow> block ms s')"
  by (simp add: and_then_def)

lemma record_op_trace [simp]: "record_op (w\<lparr>trace := t\<rparr>) = record_op w"
  by (simp add: fun_eq_iff record_op_def)

lemma net_output_trace [simp]: "net_output (w\<lparr>trace := t\<rparr>) = net_output w"
  by (simp add: net_output_def fun_eq_iff state_dict_def tracked_def)

lemma tensor_ops_trace [simp]:
  "tensor_to (w\<lparr>trace := t\<rparr>) = tensor_to w"
  "tensor_add (w\<lparr>trace := t\<rparr>) = tensor_add w"
  "tensor_scale (w\<lparr>trace := t\<rparr>) = tensor_scale w"
  "tensor_cat (w\<lparr>trace := t\<rparr>) = tensor_cat w"
  "loss_flag (w\<lparr>trace := t\<rparr>) = loss_flag w"
  "loss_pair (w\<lparr>trace := t\<rparr>) = loss_pair w"
  by (simp_all add: fun_eq_iff tensor_to_def tensor_add_def tensor_scale_def tensor_cat_def
        loss_flag_def loss_pair_def)

text \<open>The two example controllers are what the constructor builds in the example world.\<close>

lemma init_sampler:
  "init opts ''cpu'' ''run/'' (1 / 5000) (1 / 2) False fresh_world =
     (Inr sampler, fresh_world\<lparr>next_param := 4, next_net := 2\<rparr>)"
  apply (simp add: init_def construct_def EpochTracker_def CycleGanResnetGenerator_def
      new_net_def Let_def sampler_def)
  apply (simp add: fresh_world_def upt_rec numeral_2_eq_2 fun_eq_iff)
  done

lemma init_trainer:
  "init opts ''cpu'' ''run/'' (1 / 5000) (1 / 2) True fresh_world =
     (Inr trainer, fresh_world\<lparr>next_param := 6, next_net := 4\<rparr>)"
  apply (simp add: init_def construct_def EpochTracker_def CycleGanResnetGenerator_def
      CycleGanDiscriminator_def new_net_def Let_def sampler_def trainer_def)
  apply (simp add: fresh_world_def upt_rec numeral_2_eq_2 fun_eq_iff)
  done

section \<open>Freezing and unfreezing\<close>

lemma set_parameters_of:
  "set (parameters_of nets) = {p. \<exists>n. Some n \<in> set nets \<and> p \<in> set (net_params n)}"
  by (induction nets rule: parameters_of.induct) auto

lemma fold_set_param_requires_grad:
  "fold (\<lambda>p. set_param_requires_grad p b) ps w =
     w\<lparr>params := (\<lambda>q. if q \<in> set ps then (params w q)\<lparr>requires_grad := b\<rparr> else params w q),
       trace := trace w @ map (\<lambda>p. RequiresGrad p b) ps\<rparr>"
proof (induction ps arbitrary: w)
  case Nil
  show ?case by simp
next
  case (Cons p ps)
  have "fold (\<lambda>p. set_param_requires_grad p b) (p # ps) w =
        fold (\<lambda>p. set_param_requires_grad p b) ps (set_param_requires_grad p b w)"
    by simp
  also have "\<dots> = w\<lparr>params := (\<lambda>q. if q \<in> set (p # ps) then (params w q)\<lparr>requires_grad := b\<rparr>
                                   else params w q),
                    trace := trace w @ map (\<lambda>p. RequiresGrad p b) (p # ps)\<rparr>"
    unfolding Cons.IH
    by (rule world.equality) (simp_all add: set_param_requires_grad_def emit_def fun_eq_iff)
  finally show ?case .
qed

lemma set_requires_grad_closed:
  "set_requires_grad nets b w =
     w\<lparr>params := (\<lambda>q. if q \<in> set (parameters_of nets) then (params w q)\<lparr>requires_grad := b\<rparr>
                        else params w q),
       trace := trace w @ map (\<lambda>p. RequiresGrad p b) (parameters_of nets)\<rparr>"
proof (induction nets b w rule: set_requires_grad.induct)
  case (1 b w)
  show ?case by simp
next
  case (2 nets b w)
  then show ?case by simp
next
  case (3 n nets b w)
  have "set_requires_grad (Some n # nets) b w =
        set_requires_grad nets b (fold (\<lambda>p. set_param_requires_grad p b) (net_params n) w)"
    by simp
  also have "\<dots> = w\<lparr>params := (\<lambda>q. if q \<in> set (parameters_of (Some n # nets))
                                   then (params w q)\<lparr>requires_grad := b\<rparr> else params w q),
                    trace := trace w @ map (\<lambda>p. RequiresGrad p b) (parameters_of (Some n # nets))\<rparr>"
    unfolding "3.IH"
    by (rule world.equality) (simp_all add: fold_set_param_requires_grad fun_eq_iff)
  finally show ?case .
qed

text \<open>
  C8. For every list of models and every flag, \<^verbatim>\<open>set_requires_grad\<close> leaves the
  gradient-tracking flag of every parameter of every model of the list that is not \<^verbatim>\<open>None\<close>
  equal to the flag. A parameter of no listed model keeps its cell, no weight and no gradient
  changes, a \<^verbatim>\<open>None\<close> entry is skipped, and the method has no result and no way to fail: it
  only maps the world to the next one.
\<close>

theorem set_requires_grad_sets_flag:
  "(\<forall>n p. Some n \<in> set nets \<and> p \<in> set (net_params n) \<longrightarrow>
       requires_grad (params (set_requires_grad nets b w) p) = b)
   \<and> (\<forall>p. (\<forall>n. Some n \<in> set nets \<longrightarrow> p \<notin> set (net_params n)) \<longrightarrow>
       params (set_requires_grad nets b w) p = params w p)
   \<and> (\<forall>p. weight (params (set_requires_grad nets b w) p) = weight (params w p)
          \<and> grad (params (set_requires_grad nets b w) p) = grad (params w p))
   \<and> set_requires_grad (None # nets) b w = set_requires_grad nets b w"
  by (auto simp: set_requires_grad_closed set_parameters_of)

theorem set_requires_grad_sets_flag_witness:
  "Some \<lparr>net_id = 2, net_params = [4]\<rparr> \<in> set [Some \<lparr>net_id = 2, net_params = [4]\<rparr>, None]
   \<and> 4 \<in> set (net_params \<lparr>net_id = 2, net_params = [4]\<rparr>)
   \<and> requires_grad (params fresh_world 4)
   \<and> \<not> requires_grad
         (params (set_requires_grad [Some \<lparr>net_id = 2, net_params = [4]\<rparr>, None] False fresh_world) 4)
   \<and> params (set_requires_grad [Some \<lparr>net_id = 2, net_params = [4]\<rparr>, None] False fresh_world) 5
       = params fresh_world 5"
  using set_requires_grad_sets_flag
    [of "[Some \<lparr>net_id = 2, net_params = [4]\<rparr>, None]" False fresh_world]
  by (simp add: fresh_world_def)

section \<open>The forward pass\<close>

text \<open>
  C6. After \<^verbatim>\<open>set_input(a, b)\<close> and \<^verbatim>\<open>forward()\<close>, where \<open>ra\<close> and \<open>rb\<close> are the two
  stored inputs: \<^verbatim>\<open>fake_B\<close> is the output of GenA on \<open>ra\<close>, \<^verbatim>\<open>new_A\<close> the output of GenB on
  that \<^verbatim>\<open>fake_B\<close>, \<^verbatim>\<open>fake_A\<close> the output of GenB on \<open>rb\<close>, \<^verbatim>\<open>new_B\<close> the output of GenA on
  that \<^verbatim>\<open>fake_A\<close>; the four network calls happen in this order, and the world differs from the
  one before only in the trace of these calls, so no parameter has changed. The networks are
  supposed to take the inputs they are given.
\<close>

theorem forward_wiring:
  fixes self :: cyclegan and w :: world and a b :: tensor
  defines "ra \<equiv> tensor_to w (device self) a"
      and "rb \<equiv> tensor_to w (device self) b"
  defines "fb \<equiv> net_output w (GenA self) ra"
      and "fa \<equiv> net_output w (GenB self) rb"
  defines "na \<equiv> net_output w (GenB self) fb"
      and "nb \<equiv> net_output w (GenA self) fa"
  assumes "accepts w (net_id (GenA self)) ra" and "accepts w (net_id (GenB self)) fb"
      and "accepts w (net_id (GenB self)) rb" and "accepts w (net_id (GenA self)) fa"
  shows "block [set_input a b, forward] (self, w) =
           (Inr (),
            self\<lparr>real_A := Some ra, real_B := Some rb, fake_B := Some fb, new_A := Some na,
                 fake_A := Some fa, new_B := Some nb\<rparr>,
            w\<lparr>trace := trace w @ [Call (net_id (GenA self)) ra, Call (net_id (GenB self)) fb,
                                   Call (net_id (GenB self)) rb, Call (net_id (GenA self)) fa]\<rparr>)"
  using assms(7-10) unfolding assms(1-6)
  by (simp add: set_input_def forward_def action_defs call_def emit_def)

theorem forward_wiring_witness:
  "accepts fresh_world (net_id (GenA sampler)) (tensor_to fresh_world (device sampler) (Batch 0))
   \<and> fake_B (fst (snd (block [set_input (Batch 0) (Batch 1), forward] (sampler, fresh_world))))
       = Some (Out 0 [Init 0, Init 1] [0, 1] (To ''cpu'' (Batch 0)))
   \<and> new_A (fst (snd (block [set_input (Batch 0) (Batch 1), forward] (sampler, fresh_world))))
       = Some (Out 1 [Init 2, Init 3] [2, 3] (Out 0 [Init 0, Init 1] [0, 1] (To ''cpu'' (Batch 0))))
   \<and> params (snd (snd (block [set_input (Batch 0) (Batch 1), forward] (sampler, fresh_world))))
       = params fresh_world"
  using forward_wiring [of fresh_world sampler "Batch 0" "Batch 1"]
  by (simp add: fresh_world_def sampler_def tensor_to_def net_output_def record_op_def
        state_dict_def tracked_def)


section \<open>What a method leaves alone\<close>

lemma keepsD: "keeps obs m \<Longrightarrow> obs (snd (m s)) = obs s"
  unfolding keeps_def by blast

lemma keeps_and_then:
  assumes "keeps obs m" and "\<And>x. keeps obs (f x)"
  shows "keeps obs (and_then m f)"
  unfolding keeps_def
proof
  fix s
  show "obs (snd (and_then m f s)) = obs s"
  proof -
    obtain r s' where ms: "m s = (r, s')"
      by (metis surj_pair)
    have s': "obs s' = obs s" using keepsD [OF assms(1), of s] ms by simp
    show ?thesis
    proof (cases r)
      case (Inl e)
      with ms s' show ?thesis by (simp add: and_then_def)
    next
      case (Inr x)
      with ms s' keepsD [OF assms(2), of x s'] show ?thesis by (simp add: and_then_def)
    qed
  qed
qed

lemma keeps_block:
  assumes "\<And>m. m \<in> set ms \<Longrightarrow> keeps obs m"
  shows "keeps obs (block ms)"
  using assms
proof (induction ms)
  case Nil
  show ?case by (simp add: keeps_def)
next
  case (Cons m ms)
  have "keeps obs (and_then m (\<lambda>_. block ms))"
    by (rule keeps_and_then) (simp_all add: Cons)
  then show ?case by (simp add: keeps_def)
qed

lemma keeps_dep:
  assumes "\<And>x. keeps obs (m x)"
  shows "keeps obs (\<lambda>s. m (h s) s)"
  using assms by (simp add: keeps_def)

lemma keeps_still [simp]:
  "keeps obs (return x)" "keeps obs (attr g)" "keeps obs (pure_op k)"
  "keeps obs (detach t)" "keeps obs (data_of h)"
  by (simp_all add: keeps_def action_defs split: option.splits)

lemma keeps_lift:
  assumes "\<And>c w. obs (c, snd (m w)) = obs (c, w)"
  shows "keeps obs (lift m)"
  using assms by (simp add: keeps_def lift_def split: prod.splits) (metis snd_conv)

lemma keeps_effect:
  assumes "\<And>c w. obs (c, m w) = obs (c, w)"
  shows "keeps obs (effect m)"
  using assms by (simp add: keeps_def effect_def)

lemma keeps_assign:
  assumes "\<And>c w. obs (upd c, w) = obs (c, w)"
  shows "keeps obs (assign upd)"
  using assms by (simp add: keeps_def assign_def)

lemma self_only_fst [simp]: "self_only (\<lambda>s. g (fst s))"
  by (simp add: self_only_def)

lemma self_onlyD: "self_only obs \<Longrightarrow> obs (c, w) = obs (c, w')"
  unfolding self_only_def by blast

lemma keeps_self_lift: "self_only obs \<Longrightarrow> keeps obs (lift m)"
  by (rule keeps_lift) (rule self_onlyD)

lemma keeps_self_effect: "self_only obs \<Longrightarrow> keeps obs (effect m)"
  by (rule keeps_effect) (rule self_onlyD)

lemma keeps_self_lift_dep: "self_only obs \<Longrightarrow> keeps obs (\<lambda>s. lift (m s) s)"
  unfolding keeps_def
proof
  fix s :: "cyclegan \<times> world"
  assume "self_only obs"
  from keepsD [OF keeps_self_lift [OF this], of "m s" s]
  show "obs (snd (lift (m s) s)) = obs s" .
qed

lemma keeps_self_call_on: "self_only obs \<Longrightarrow> keeps obs (call_on n x)"
  unfolding call_on_def by (rule keeps_self_lift_dep)

lemma keeps_self_backward_d: "self_only obs \<Longrightarrow> keeps obs (backward_d n x y)"
  unfolding backward_d_def
  by (intro keeps_and_then keeps_still keeps_self_lift keeps_self_effect)

lemma keeps_self_backward_d_dep:
  "self_only obs \<Longrightarrow> keeps obs (\<lambda>s. backward_d n (x s) (y s) s)"
  using keeps_self_backward_d [of obs n] by (simp add: keeps_def)

lemma keeps_assign_dep:
  assumes "\<And>s c w. obs (upd s c, w) = obs (c, w)"
  shows "keeps obs (\<lambda>s. assign (upd s) s)"
  using assms by (simp add: keeps_def assign_def)

lemmas keeps_intros = keeps_and_then keeps_still keeps_self_lift keeps_self_effect
  keeps_self_lift_dep keeps_self_call_on keeps_self_backward_d keeps_self_backward_d_dep
  keeps_assign keeps_assign_dep

lemma keeps_self_set_input:
  assumes "\<And>c t. g (c\<lparr>real_A := t\<rparr>) = g c" and "\<And>c t. g (c\<lparr>real_B := t\<rparr>) = g c"
  shows "keeps (\<lambda>s. g (fst s)) (set_input a b)"
  unfolding set_input_def
  by (rule keeps_block) (auto intro!: keeps_intros simp: assms)

lemma keeps_self_forward:
  assumes "\<And>c t. g (c\<lparr>fake_A := t\<rparr>) = g c" and "\<And>c t. g (c\<lparr>fake_B := t\<rparr>) = g c"
      and "\<And>c t. g (c\<lparr>new_A := t\<rparr>) = g c" and "\<And>c t. g (c\<lparr>new_B := t\<rparr>) = g c"
  shows "keeps (\<lambda>s. g (fst s)) forward"
  unfolding forward_def
  by (rule keeps_block) (auto intro!: keeps_intros simp: assms)

lemma stable_forward: "stable g \<Longrightarrow> keeps (\<lambda>s. g (fst s)) forward"
  by (rule keeps_self_forward) (simp_all add: stable_def)

lemma stable_backward_g:
  assumes "stable g"
  shows "keeps (\<lambda>s. g (fst s)) backward_g"
  unfolding backward_g_def
  using assms
  by (intro keeps_block) (auto intro!: keeps_intros simp: stable_def)

lemma stable_train:
  assumes "stable g"
  shows "keeps (\<lambda>s. g (fst s)) train"
  unfolding train_def
  using assms
  by (intro keeps_block)
     (auto intro!: keeps_intros stable_forward stable_backward_g simp: stable_def)

lemma stable_test:
  assumes "stable g"
  shows "keeps (\<lambda>s. g (fst s)) test"
  using keepsD [OF stable_forward [OF assms]]
  by (simp add: keeps_def test_def Let_def split: prod.splits) (metis fst_conv snd_conv)

lemma stable_save_progress: "keeps (\<lambda>s. g (fst s)) (save_progress path epoch iteration)"
  unfolding save_progress_def
  by (intro keeps_block) (auto intro!: keeps_intros)

lemma stable_invoke:
  assumes "stable g" and "\<not> is_set_input c"
  shows "g (fst (invoke c s)) = g (fst s)"
proof (cases c)
  case (SetInput a b)
  with assms show ?thesis by simp
next
  case Forward
  then show ?thesis using keepsD [OF stable_forward [OF assms(1)], of s] by simp
next
  case (BackwardD n x y)
  then show ?thesis using keepsD [OF keeps_self_backward_d [OF self_only_fst], of g n x y s] by simp
next
  case BackwardG
  then show ?thesis using keepsD [OF stable_backward_g [OF assms(1)], of s] by simp
next
  case Train
  then show ?thesis using keepsD [OF stable_train [OF assms(1)], of s] by simp
next
  case Test
  then show ?thesis using keepsD [OF stable_test [OF assms(1)], of s] by simp
next
  case (SaveProgress path epoch iteration)
  then show ?thesis using keepsD [OF stable_save_progress, of g path epoch iteration s] by simp
next
  case (SetRequiresGrad nets b)
  then show ?thesis by simp
qed

lemma stable_lifetime:
  assumes "stable g" and "\<forall>c \<in> set calls. \<not> is_set_input c"
  shows "g (fst (fold invoke calls s)) = g (fst s)"
  using assms(2)
proof (induction calls arbitrary: s)
  case Nil
  show ?case by simp
next
  case (Cons c calls)
  then show ?case by (simp add: stable_invoke [OF assms(1)])
qed

lemma stable_set_input:
  assumes "\<And>c t. g (c\<lparr>real_A := t\<rparr>) = g c" and "\<And>c t. g (c\<lparr>real_B := t\<rparr>) = g c"
  shows "g (fst (invoke (SetInput a b) s)) = g (fst s)"
  using keepsD [OF keeps_self_set_input [of g, OF assms], of a b s] by simp

lemma keeps_load_into: "self_only obs \<Longrightarrow> keeps obs (load_into n f)"
  unfolding load_into_def by (intro keeps_intros)

lemma keeps_load_checkpoint: "self_only obs \<Longrightarrow> keeps obs (load_checkpoint training)"
  unfolding load_checkpoint_def by (rule keeps_block) (auto intro!: keeps_load_into)

lemma init_self:
  assumes "init opts dev prefix rate b1 training w0 = (Inr self, w)"
  shows "self = fst (construct dev prefix rate b1 training w0)"
proof -
  obtain c w1 where c: "construct dev prefix rate b1 training w0 = (c, w1)"
    by (metis surj_pair)
  have "fst (snd (load_checkpoint training (c, w1))) = c"
    using keepsD [OF keeps_load_checkpoint [of fst training], of "(c, w1)"]
    by (simp add: self_only_def)
  with assms c show ?thesis
    by (auto simp: init_def split: if_splits prod.splits sum.splits)
qed

lemma construct_attrs:
  "real_A (fst (construct dev prefix rate b1 training w0)) = None"
  "real_B (fst (construct dev prefix rate b1 training w0)) = None"
  "lambda_A (fst (construct dev prefix rate b1 training w0)) = 10"
  "lambda_B (fst (construct dev prefix rate b1 training w0)) = 10"
  "\<not> training \<Longrightarrow> DisA (fst (construct dev prefix rate b1 training w0)) = None"
  "\<not> training \<Longrightarrow> DisB (fst (construct dev prefix rate b1 training w0)) = None"
  by (simp_all add: construct_def Let_def split_def)

lemma stable_simps [simp]:
  "stable real_A" "stable real_B" "stable DisA" "stable DisB"
  by (simp_all add: stable_def)

lemma stable_lifetime_all:
  assumes "stable g" and "\<And>c t. g (c\<lparr>real_A := t\<rparr>) = g c" and "\<And>c t. g (c\<lparr>real_B := t\<rparr>) = g c"
  shows "g (fst (fold invoke calls s)) = g (fst s)"
proof (induction calls arbitrary: s)
  case Nil
  show ?case by simp
next
  case (Cons c calls)
  have "g (fst (invoke c s)) = g (fst s)"
  proof (cases "is_set_input c")
    case True
    then obtain a b where "c = SetInput a b" by (cases c) simp_all
    then show ?thesis using stable_set_input [of g a b s, OF assms(2,3)] by simp
  next
    case False
    then show ?thesis by (rule stable_invoke [OF assms(1)])
  qed
  with Cons show ?case by simp
qed

section \<open>Forward without input\<close>

lemma forward_without_input:
  assumes "real_A (fst s) = None"
  shows "forward s = (Inl UninitializedInputError, s)"
  using assms by (cases s) (simp add: forward_def action_defs call_def)

text \<open>
  C7. In the lifetime of a controller, from its construction on, through any calls of its methods
  that do not include \<^verbatim>\<open>set_input\<close>, \<^verbatim>\<open>forward()\<close> fails with
  \<open>UninitializedInputError\<close> and changes nothing: \<^verbatim>\<open>real_A\<close> is still the \<^verbatim>\<open>None\<close> the
  constructor assigned, and the generator is called on it.
\<close>

theorem forward_needs_set_input:
  assumes "init opts dev prefix rate b1 training w0 = (Inr self, w)"
      and "\<forall>c \<in> set calls. \<not> is_set_input c"
  shows "forward (fold invoke calls (self, w)) =
           (Inl UninitializedInputError, fold invoke calls (self, w))"
proof -
  have "real_A self = None"
    using init_self [OF assms(1)] by (simp add: construct_attrs)
  then have "real_A (fst (fold invoke calls (self, w))) = None"
    using stable_lifetime [of real_A calls "(self, w)", OF _ assms(2)] by simp
  then show ?thesis by (rule forward_without_input)
qed

theorem forward_needs_set_input_witness:
  "init () ''cpu'' ''run/'' (1 / 5000) (1 / 2) False fresh_world =
     (Inr sampler, fresh_world\<lparr>next_param := 4, next_net := 2\<rparr>)
   \<and> \<not> is_set_input Test \<and> \<not> is_set_input Forward
   \<and> fst (forward (fold invoke [Test, Forward]
                     (sampler, fresh_world\<lparr>next_param := 4, next_net := 2\<rparr>)))
       = Inl UninitializedInputError"
proof -
  have h: "\<forall>c \<in> set [Test, Forward]. \<not> is_set_input c" by simp
  from forward_needs_set_input [OF init_sampler [of "()"] h]
  have "fst (forward (fold invoke [Test, Forward]
                     (sampler, fresh_world\<lparr>next_param := 4, next_net := 2\<rparr>)))
       = Inl UninitializedInputError"
    by (simp only: fst_conv)
  with init_sampler [of "()"] show ?thesis by simp
qed

section \<open>Saving from an inference controller\<close>

lemma fails_whenD: "fails_when cond m \<Longrightarrow> cond s \<Longrightarrow> \<exists>e. fst (m s) = Inl e"
  unfolding fails_when_def by blast

lemma fails_attr: "fails_when (\<lambda>s. f (fst s) = None) (and_then (attr f) g)"
  by (simp add: fails_when_def and_then_def attr_def)

lemma fails_now:
  assumes "fails_when cond m"
  shows "fails_when cond (block (m # ms))"
  unfolding fails_when_def
proof (intro allI impI)
  fix s :: "cyclegan \<times> world"
  assume "cond s"
  from fails_whenD [OF assms this] obtain e where "fst (m s) = Inl e" ..
  then show "\<exists>e. fst (block (m # ms) s) = Inl e"
    by (cases "m s") (simp add: and_then_def)
qed

lemma fails_later:
  assumes "keeps cond m" and "fails_when cond (block ms)"
  shows "fails_when cond (block (m # ms))"
  unfolding fails_when_def
proof (intro allI impI)
  fix s :: "cyclegan \<times> world"
  assume c: "cond s"
  obtain r s1 where ms: "m s = (r, s1)"
    by (cases "m s") auto
  from keepsD [OF assms(1), of s] ms c have "cond s1" by simp
  from fails_whenD [OF assms(2) this] obtain e where e: "fst (block ms s1) = Inl e" ..
  show "\<exists>e. fst (block (m # ms) s) = Inl e"
  proof (cases r)
    case (Inl e')
    with ms show ?thesis by (simp add: and_then_def)
  next
    case (Inr u)
    with ms e show ?thesis by (simp add: and_then_def)
  qed
qed

lemma save_progress_without_DisA:
  assumes "DisA (fst s) = None"
  shows "\<exists>e. fst (save_progress path epoch iteration s) = Inl e"
proof -
  have "fails_when (\<lambda>s. DisA (fst s) = None) (save_progress path epoch iteration)"
    unfolding save_progress_def
    apply (rule fails_later, (intro keeps_intros self_only_fst)[1])
    apply (rule fails_later, (intro keeps_intros self_only_fst)[1])
    apply (rule fails_later, (intro keeps_intros self_only_fst)[1])
    apply (rule fails_now)
    apply (rule fails_attr)
    done
  from fails_whenD [OF this, of s] assms show ?thesis by simp
qed

text \<open>An inference controller that was given inputs and has run \<^verbatim>\<open>test()\<close>.\<close>

lemma example_run:
  "fold invoke [SetInput (Batch 0) (Batch 1), Test]
     (sampler, fresh_world\<lparr>next_param := 4, next_net := 2\<rparr>) =
   (sampler\<lparr>real_A := Some (To ''cpu'' (Batch 0)), real_B := Some (To ''cpu'' (Batch 1)),
            fake_B := Some (NoGrad (Out 0 [Init 0, Init 1] [0, 1] (To ''cpu'' (Batch 0)))),
            new_A := Some (NoGrad (Out 1 [Init 2, Init 3] [2, 3]
                             (NoGrad (Out 0 [Init 0, Init 1] [0, 1] (To ''cpu'' (Batch 0)))))),
            fake_A := Some (NoGrad (Out 1 [Init 2, Init 3] [2, 3] (To ''cpu'' (Batch 1)))),
            new_B := Some (NoGrad (Out 0 [Init 0, Init 1] [0, 1]
                             (NoGrad (Out 1 [Init 2, Init 3] [2, 3] (To ''cpu'' (Batch 1))))))\<rparr>,
    fresh_world\<lparr>next_param := 4, next_net := 2,
      trace := [Call 0 (To ''cpu'' (Batch 0)),
                Call 1 (NoGrad (Out 0 [Init 0, Init 1] [0, 1] (To ''cpu'' (Batch 0)))),
                Call 1 (To ''cpu'' (Batch 1)),
                Call 0 (NoGrad (Out 1 [Init 2, Init 3] [2, 3] (To ''cpu'' (Batch 1))))]\<rparr>)"
  by (simp add: set_input_def test_def forward_def action_defs call_def emit_def sampler_def
        fresh_world_def term_defs)

text \<open>
  C10. A controller constructed with \<^verbatim>\<open>train=False\<close> has no \<^verbatim>\<open>DisA\<close> and no \<^verbatim>\<open>DisB\<close>,
  and no method ever assigns them; so at any later moment of its lifetime \<^verbatim>\<open>save_progress\<close>
  ends in an exception. When the four sample tensors are there and the image and the two generator
  files can be written, the exception is the \<^verbatim>\<open>AttributeError\<close> of reading \<^verbatim>\<open>self.DisA\<close>,
  raised after these three files were written.
\<close>

theorem save_progress_inference_fails:
  fixes calls :: "invocation list" and path :: string and epoch iteration :: int
  assumes "init opts dev prefix rate b1 False w0 = (Inr self, w)"
  defines "s \<equiv> fold invoke calls (self, w)"
  defines "png \<equiv> path @ str_int epoch @ ''_'' @ str_int iteration @ ''.png''"
  shows "(\<exists>e. fst (save_progress path epoch iteration s) = Inl e)
         \<and> (real_A (fst s) \<noteq> None \<and> fake_A (fst s) \<noteq> None \<and> real_B (fst s) \<noteq> None
            \<and> fake_B (fst s) \<noteq> None \<and> writable (snd s) png
            \<and> writable (snd s) (file_prefix' (fst s) @ ''generator_a.pth'')
            \<and> writable (snd s) (file_prefix' (fst s) @ ''generator_b.pth'')
            \<longrightarrow> fst (save_progress path epoch iteration s) = Inl AttributeError
                \<and> trace (snd (snd (save_progress path epoch iteration s))) =
                    trace (snd s) @ [Save png,
                                     Save (file_prefix' (fst s) @ ''generator_a.pth''),
                                     Save (file_prefix' (fst s) @ ''generator_b.pth'')])"
proof -
  have "DisA self = None"
    using init_self [OF assms(1)] by (simp add: construct_attrs)
  then have dis: "DisA (fst s) = None"
    unfolding s_def using stable_lifetime_all [of DisA calls "(self, w)"] by simp
  have exact: "fst (save_progress path epoch iteration s) = Inl AttributeError
                \<and> trace (snd (snd (save_progress path epoch iteration s))) =
                    trace (snd s) @ [Save png,
                                     Save (file_prefix' (fst s) @ ''generator_a.pth''),
                                     Save (file_prefix' (fst s) @ ''generator_b.pth'')]"
    if "real_A (fst s) \<noteq> None" "fake_A (fst s) \<noteq> None" "real_B (fst s) \<noteq> None"
       "fake_B (fst s) \<noteq> None" "writable (snd s) png"
       "writable (snd s) (file_prefix' (fst s) @ ''generator_a.pth'')"
       "writable (snd s) (file_prefix' (fst s) @ ''generator_b.pth'')"
    using that dis unfolding png_def
    by (cases s) (auto simp: save_progress_def action_defs write_file_def emit_def)
  from save_progress_without_DisA [OF dis] exact show ?thesis by blast
qed

theorem save_progress_inference_fails_witness:
  "init () ''cpu'' ''run/'' (1 / 5000) (1 / 2) False fresh_world =
     (Inr sampler, fresh_world\<lparr>next_param := 4, next_net := 2\<rparr>)
   \<and> fst (save_progress ''out/'' 3 7
            (fold invoke [SetInput (Batch 0) (Batch 1), Test]
               (sampler, fresh_world\<lparr>next_param := 4, next_net := 2\<rparr>))) = Inl AttributeError"
  using save_progress_inference_fails
          [OF init_sampler [of "()"], where calls = "[SetInput (Batch 0) (Batch 1), Test]"
             and path = "''out/''" and epoch = 3 and iteration = 7]
        init_sampler [of "()"]
  unfolding example_run
  by (simp add: sampler_def fresh_world_def)

section \<open>The two backward passes\<close>

text \<open>
  The adversarial criterion of a constructed controller is the \<^verbatim>\<open>nn.BCELoss\<close> module, or is
  missing, and it stays so: no method assigns the attribute.
\<close>

lemma criterion_flag_bool_target:
  "c \<noteq> FlagLoss \<Longrightarrow> criterion_flag c x b w = (Inl AttributeError, w)"
  by (cases c) (simp_all add: criterion_flag_def)

lemma constructed_criterion:
  assumes "init opts dev prefix rate b1 training w0 = (Inr self, w)"
  shows "criterionGAN self = (if training then Some BCELoss else None)"
  unfolding init_self [OF assms] by (simp add: construct_def Let_def split_def)

lemma criterion_lifetime:
  assumes "init opts dev prefix rate b1 training w0 = (Inr self, w)"
  shows "criterionGAN (fst (fold invoke calls (self, w))) =
           (if training then Some BCELoss else None)"
  using stable_lifetime_all [of criterionGAN calls "(self, w)"] constructed_criterion [OF assms]
  by (simp add: stable_def)

lemma constructed_lambdas:
  assumes "init opts dev prefix rate b1 training w0 = (Inr self, w)"
  shows "lambda_A self = 10" and "lambda_B self = 10"
  using init_self [OF assms] by (simp_all add: construct_attrs)

text \<open>
  Without a criterion that takes a flag neither method gets past its first criterion call.
\<close>

lemma backward_d_never_returns:
  assumes "criterionGAN (fst s) \<noteq> Some FlagLoss"
  shows "\<exists>e. fst (backward_d netD real' fake s) = Inl e"
  using assms
  by (cases s)
     (auto simp: backward_d_def action_defs call_def criterion_flag_bool_target
           split: option.splits)

lemma backward_d_stops:
  assumes "criterionGAN (fst s) = Some BCELoss" and "accepts (snd s) (net_id netD) r"
  shows "backward_d netD (Some r) fake s =
           (Inl AttributeError, fst s,
            (snd s)\<lparr>trace := trace (snd s) @ [Call (net_id netD) r]\<rparr>)"
  using assms
  by (cases s) (simp add: backward_d_def action_defs call_def criterion_flag_def emit_def)

lemma backward_g_never_returns:
  "fails_when (\<lambda>s. criterionGAN (fst s) \<noteq> Some FlagLoss) backward_g"
  unfolding backward_g_def
  by (rule fails_now)
     (auto simp: fails_when_def action_defs call_def criterion_flag_bool_target
           split: option.splits)

lemma backward_g_stops:
  assumes "criterionGAN (fst s) = Some BCELoss" and "DisA (fst s) = Some dA"
      and "fake_B (fst s) = Some fb" and "accepts (snd s) (net_id dA) fb"
  shows "backward_g s =
           (Inl AttributeError, fst s,
            (snd s)\<lparr>trace := trace (snd s) @ [Call (net_id dA) fb]\<rparr>)"
  using assms
  by (cases s) (simp add: backward_g_def action_defs call_def criterion_flag_def emit_def)

text \<open>A training controller that was given inputs and has run \<^verbatim>\<open>forward()\<close>.\<close>

lemma example_training_run:
  "fold invoke [SetInput (Batch 0) (Batch 1), Forward]
     (trainer, fresh_world\<lparr>next_param := 6, next_net := 4\<rparr>) =
   (trainer\<lparr>real_A := Some (To ''cpu'' (Batch 0)), real_B := Some (To ''cpu'' (Batch 1)),
            fake_B := Some (Out 0 [Init 0, Init 1] [0, 1] (To ''cpu'' (Batch 0))),
            new_A := Some (Out 1 [Init 2, Init 3] [2, 3]
                             (Out 0 [Init 0, Init 1] [0, 1] (To ''cpu'' (Batch 0)))),
            fake_A := Some (Out 1 [Init 2, Init 3] [2, 3] (To ''cpu'' (Batch 1))),
            new_B := Some (Out 0 [Init 0, Init 1] [0, 1]
                             (Out 1 [Init 2, Init 3] [2, 3] (To ''cpu'' (Batch 1))))\<rparr>,
    fresh_world\<lparr>next_param := 6, next_net := 4,
      trace := [Call 0 (To ''cpu'' (Batch 0)),
                Call 1 (Out 0 [Init 0, Init 1] [0, 1] (To ''cpu'' (Batch 0))),
                Call 1 (To ''cpu'' (Batch 1)),
                Call 0 (Out 1 [Init 2, Init 3] [2, 3] (To ''cpu'' (Batch 1)))]\<rparr>)"
  by (simp add: set_input_def forward_def action_defs call_def emit_def trainer_def sampler_def
        fresh_world_def term_defs)

text \<open>
  C3. \<^verbatim>\<open>backward_d\<close> computes no loss, runs no backward pass and returns nothing. It hands
  the adversarial criterion the Python \<^verbatim>\<open>bool\<close> \<^verbatim>\<open>True\<close> as the target (line 70), the
  criterion the constructor installs is \<^verbatim>\<open>nn.BCELoss\<close>, which raises \<^verbatim>\<open>AttributeError\<close> on
  such a target, and no method assigns the attribute again. So on every controller the constructor
  builds, for training or not, at every moment of its lifetime, every call of \<^verbatim>\<open>backward_d\<close>
  ends in an exception. On a training controller, when \<open>netD\<close> takes the real batch, the
  exception is the \<^verbatim>\<open>AttributeError\<close> of the first criterion call, and all that has happened
  is the call \<^verbatim>\<open>netD(real)\<close>: the attributes and the parameters are as they were.
\<close>

theorem backward_d_raises:
  fixes calls :: "invocation list" and netD :: net and real' fake :: "tensor option"
    and r :: tensor
  assumes "init opts dev prefix rate b1 training w0 = (Inr self, w)"
  defines "s \<equiv> fold invoke calls (self, w)"
  shows "(\<exists>e. fst (backward_d netD real' fake s) = Inl e)
         \<and> (training \<and> real' = Some r \<and> accepts (snd s) (net_id netD) r
            \<longrightarrow> backward_d netD real' fake s =
                  (Inl AttributeError, fst s,
                   (snd s)\<lparr>trace := trace (snd s) @ [Call (net_id netD) r]\<rparr>))"
proof -
  have c: "criterionGAN (fst s) = (if training then Some BCELoss else None)"
    unfolding s_def by (rule criterion_lifetime [OF assms(1)])
  then have "criterionGAN (fst s) \<noteq> Some FlagLoss" by simp
  from backward_d_never_returns [OF this] backward_d_stops [of s netD r fake] c
  show ?thesis by auto
qed

theorem backward_d_raises_witness:
  "init () ''cpu'' ''run/'' (1 / 5000) (1 / 2) True fresh_world =
     (Inr trainer, fresh_world\<lparr>next_param := 6, next_net := 4\<rparr>)
   \<and> accepts fresh_world 2 (To ''cpu'' (Batch 1))
   \<and> fst (backward_d \<lparr>net_id = 2, net_params = [4]\<rparr> (Some (To ''cpu'' (Batch 1)))
            (Some (Out 0 [Init 0, Init 1] [0, 1] (To ''cpu'' (Batch 0))))
            (fold invoke [SetInput (Batch 0) (Batch 1), Forward]
               (trainer, fresh_world\<lparr>next_param := 6, next_net := 4\<rparr>))) = Inl AttributeError
   \<and> trace (snd (snd (backward_d \<lparr>net_id = 2, net_params = [4]\<rparr> (Some (To ''cpu'' (Batch 1)))
            (Some (Out 0 [Init 0, Init 1] [0, 1] (To ''cpu'' (Batch 0))))
            (fold invoke [SetInput (Batch 0) (Batch 1), Forward]
               (trainer, fresh_world\<lparr>next_param := 6, next_net := 4\<rparr>)))))
       = [Call 0 (To ''cpu'' (Batch 0)),
          Call 1 (Out 0 [Init 0, Init 1] [0, 1] (To ''cpu'' (Batch 0))),
          Call 1 (To ''cpu'' (Batch 1)),
          Call 0 (Out 1 [Init 2, Init 3] [2, 3] (To ''cpu'' (Batch 1))),
          Call 2 (To ''cpu'' (Batch 1))]"
  using backward_d_raises
          [OF init_trainer [of "()"], where calls = "[SetInput (Batch 0) (Batch 1), Forward]"
             and netD = "\<lparr>net_id = 2, net_params = [4]\<rparr>"
             and real' = "Some (To ''cpu'' (Batch 1))" and r = "To ''cpu'' (Batch 1)"
             and fake = "Some (Out 0 [Init 0, Init 1] [0, 1] (To ''cpu'' (Batch 0)))"]
        init_trainer [of "()"]
  unfolding example_training_run
  by (simp add: fresh_world_def)

text \<open>
  C2. \<^verbatim>\<open>backward_g\<close> computes no \<^verbatim>\<open>loss_G\<close> and runs no backward pass. Its first statement
  hands the adversarial criterion the Python \<^verbatim>\<open>bool\<close> \<^verbatim>\<open>True\<close> as the target (line 81), and
  the criterion of a constructed controller is \<^verbatim>\<open>nn.BCELoss\<close>, which raises
  \<^verbatim>\<open>AttributeError\<close> on such a target. So on every controller the constructor builds, at every
  moment of its lifetime, every call of \<^verbatim>\<open>backward_g\<close> ends in an exception. On a training
  controller whose \<^verbatim>\<open>forward()\<close> has run, when DisA takes \<^verbatim>\<open>fake_B\<close>, the exception is that
  \<^verbatim>\<open>AttributeError\<close>, and all that has happened is the call \<^verbatim>\<open>DisA(fake_B)\<close>: every
  attribute, \<^verbatim>\<open>loss_G\<close> among them, and every parameter is as it was. What does hold of the
  code is that both cycle weights of a constructed controller are 10.
\<close>

theorem backward_g_raises:
  fixes calls :: "invocation list" and dA :: net and fb :: tensor
  assumes "init opts dev prefix rate b1 training w0 = (Inr self, w)"
  defines "s \<equiv> fold invoke calls (self, w)"
  shows "(\<exists>e. fst (backward_g s) = Inl e)
         \<and> (training \<and> DisA (fst s) = Some dA \<and> fake_B (fst s) = Some fb
            \<and> accepts (snd s) (net_id dA) fb
            \<longrightarrow> backward_g s =
                  (Inl AttributeError, fst s,
                   (snd s)\<lparr>trace := trace (snd s) @ [Call (net_id dA) fb]\<rparr>))
         \<and> lambda_A self = 10 \<and> lambda_B self = 10"
proof -
  have c: "criterionGAN (fst s) = (if training then Some BCELoss else None)"
    unfolding s_def by (rule criterion_lifetime [OF assms(1)])
  then have "criterionGAN (fst s) \<noteq> Some FlagLoss" by simp
  from fails_whenD [OF backward_g_never_returns, of s, OF this]
    backward_g_stops [of s dA fb] c constructed_lambdas [OF assms(1)]
  show ?thesis by auto
qed

theorem backward_g_raises_witness:
  "init () ''cpu'' ''run/'' (1 / 5000) (1 / 2) True fresh_world =
     (Inr trainer, fresh_world\<lparr>next_param := 6, next_net := 4\<rparr>)
   \<and> accepts fresh_world 2 (Out 0 [Init 0, Init 1] [0, 1] (To ''cpu'' (Batch 0)))
   \<and> fst (backward_g (fold invoke [SetInput (Batch 0) (Batch 1), Forward]
                        (trainer, fresh_world\<lparr>next_param := 6, next_net := 4\<rparr>)))
       = Inl AttributeError
   \<and> loss_G (fst (snd (backward_g (fold invoke [SetInput (Batch 0) (Batch 1), Forward]
                                     (trainer, fresh_world\<lparr>next_param := 6, next_net := 4\<rparr>)))))
       = Some (Number 0)
   \<and> trace (snd (snd (backward_g (fold invoke [SetInput (Batch 0) (Batch 1), Forward]
                                     (trainer, fresh_world\<lparr>next_param := 6, next_net := 4\<rparr>)))))
       = [Call 0 (To ''cpu'' (Batch 0)),
          Call 1 (Out 0 [Init 0, Init 1] [0, 1] (To ''cpu'' (Batch 0))),
          Call 1 (To ''cpu'' (Batch 1)),
          Call 0 (Out 1 [Init 2, Init 3] [2, 3] (To ''cpu'' (Batch 1))),
          Call 2 (Out 0 [Init 0, Init 1] [0, 1] (To ''cpu'' (Batch 0)))]
   \<and> lambda_A trainer = 10 \<and> lambda_B trainer = 10"
  using backward_g_raises
          [OF init_trainer [of "()"], where calls = "[SetInput (Batch 0) (Batch 1), Forward]"
             and dA = "\<lparr>net_id = 2, net_params = [4]\<rparr>"
             and fb = "Out 0 [Init 0, Init 1] [0, 1] (To ''cpu'' (Batch 0))"]
        init_trainer [of "()"]
  unfolding example_training_run
  by (simp add: trainer_def sampler_def fresh_world_def)

text \<open>
  What the two methods are written for shows with a criterion that takes the flag, on losses that
  have a gradient history: \<^verbatim>\<open>backward_d\<close> returns half of the sum of the two adversarial
  losses, the second one on the detached fake batch, after one backward pass on it;
  \<^verbatim>\<open>backward_g\<close> stores the plain sum of the two adversarial and the two weighted cycle losses,
  in which no identity term occurs, and runs one backward pass on it.
\<close>

lemma backward_d_with_flag_criterion:
  fixes netD :: net and r f :: tensor and self :: cyclegan and w :: world
  defines "loss_d_real \<equiv> loss_flag w FlagLoss (net_output w netD r) True"
      and "loss_d_fake \<equiv> loss_flag w FlagLoss (net_output w netD (Detach f)) False"
  defines "loss_d \<equiv> tensor_scale w (tensor_add w loss_d_real loss_d_fake) (1 / 2)"
  assumes "criterionGAN self = Some FlagLoss"
      and "accepts w (net_id netD) r" and "accepts w (net_id netD) (Detach f)"
      and "leaves loss_d \<noteq> {}"
  shows "backward_d netD (Some r) (Some f) (self, w) =
           (Inr loss_d, self,
            accumulate loss_d
              (w\<lparr>trace := trace w @ [Call (net_id netD) r, Call (net_id netD) (Detach f)]\<rparr>))"
  using assms(4-7) unfolding assms(1-3)
  by (simp add: backward_d_def action_defs call_def criterion_flag_def backward_def emit_def)

lemma backward_g_with_flag_criterion:
  fixes self :: cyclegan and w :: world
    and dA dB :: net and cc :: lossfn and fa fb na nb ra rb :: tensor
  defines "genA \<equiv> loss_flag w FlagLoss (net_output w dA fb) True"
      and "genB \<equiv> loss_flag w FlagLoss (net_output w dB fa) True"
      and "cycle_A \<equiv> tensor_scale w (loss_pair w cc na ra) (lambda_A self)"
      and "cycle_B \<equiv> tensor_scale w (loss_pair w cc nb rb) (lambda_B self)"
  defines "G \<equiv> tensor_add w (tensor_add w (tensor_add w genA genB) cycle_A) cycle_B"
  assumes "criterionGAN self = Some FlagLoss" and "criterionCycle self = Some cc"
      and "DisA self = Some dA" and "DisB self = Some dB"
      and "real_A self = Some ra" and "real_B self = Some rb"
      and "fake_A self = Some fa" and "fake_B self = Some fb"
      and "new_A self = Some na" and "new_B self = Some nb"
      and "accepts w (net_id dA) fb" and "accepts w (net_id dB) fa"
      and "leaves G \<noteq> {}"
  shows "backward_g (self, w) =
           (Inr (),
            self\<lparr>loss_genA := Some genA, loss_genB := Some genB,
                 loss_cycle_A := Some cycle_A, loss_cycle_B := Some cycle_B,
                 loss_G := Some G\<rparr>,
            accumulate G (w\<lparr>trace := trace w @ [Call (net_id dA) fb, Call (net_id dB) fa]\<rparr>))"
  using assms(6-18) unfolding assms(1-5)
  by (simp add: backward_g_def action_defs call_def criterion_flag_def criterion_pair_def
        backward_def emit_def)

text \<open>
  C4. A call of \<^verbatim>\<open>backward_d\<close>, whatever its outcome, leaves every parameter cell of a
  generator as it was, its gradient in particular, whatever the fake batch is and however much of
  the generator's history it carries: the fake batch is detached. The discriminator is supposed to
  share no parameter with the generator, and the real batch to carry no gradient history that
  reaches it.
\<close>

lemma backward_touches:
  "p \<notin> leaves l \<Longrightarrow> params (snd (backward l w)) p = params w p"
  by (simp add: backward_def accumulate_def emit_def)

lemma lift_backward:
  "lift (backward l) (c, w) = (fst (backward l w), c, snd (backward l w))"
  by (simp add: lift_def split_def)

lemma leaves_record_op: "leaves (record_op w t) \<subseteq> leaves t"
  by (simp add: record_op_def)

lemma leaves_net_output: "leaves (net_output w n t) \<subseteq> set (net_params n) \<union> leaves t"
  by (auto simp: net_output_def record_op_def tracked_def)

lemma leaves_loss_d:
  "leaves (tensor_scale w (tensor_add w (loss_flag w c (net_output w n r) True)
                                       (loss_flag w c' (net_output w n (Detach f)) False)) k)
     \<subseteq> set (net_params n) \<union> leaves r"
  using leaves_net_output [of w n r] leaves_net_output [of w n "Detach f"]
  by (auto simp: tensor_scale_def tensor_add_def loss_flag_def record_op_def)

theorem backward_d_detached:
  assumes "set (net_params netD) \<inter> set (net_params gen) = {}"
      and "\<forall>r. real' = Some r \<longrightarrow> leaves r \<inter> set (net_params gen) = {}"
      and "p \<in> set (net_params gen)"
  shows "params (snd (snd (backward_d netD real' fake (self, w)))) p = params w p"
proof (cases real')
  case None
  then show ?thesis by (simp add: backward_d_def action_defs call_def)
next
  case (Some r)
  with assms have p: "p \<notin> set (net_params netD) \<union> leaves r" by auto
  show ?thesis
  proof (cases "accepts w (net_id netD) r \<and> criterionGAN self = Some FlagLoss \<and> fake \<noteq> None")
    case False
    with Some show ?thesis
      by (auto simp: backward_d_def action_defs call_def criterion_flag_def emit_def
          split: option.splits lossfn.splits)
  next
    case True
    then obtain f where cf: "criterionGAN self = Some FlagLoss" "fake = Some f" by auto
    show ?thesis
    proof (cases "accepts w (net_id netD) (Detach f)")
      case False
      with True Some cf show ?thesis
        by (simp add: backward_d_def action_defs call_def criterion_flag_def emit_def)
    next
      case acc: True
      define l where
        "l = tensor_scale w (tensor_add w (loss_flag w FlagLoss (net_output w netD r) True)
               (loss_flag w FlagLoss (net_output w netD (Detach f)) False)) (1 / 2)"
      define w' where
        "w' = w\<lparr>trace := trace w @ [Call (net_id netD) r, Call (net_id netD) (Detach f)]\<rparr>"
      from p leaves_loss_d [of w FlagLoss netD r FlagLoss f "1 / 2"]
      have "p \<notin> leaves l" unfolding l_def by blast
      from backward_touches [OF this, of w']
      have kept: "params (snd (backward l w')) p = params w p" by (simp add: w'_def)
      have "snd (snd (backward_d netD real' fake (self, w))) = snd (backward l w')"
        using True acc Some cf unfolding l_def w'_def
        by (simp add: backward_d_def action_defs call_def criterion_flag_def emit_def
              split_def split: sum.splits)
      with kept show ?thesis by simp
    qed
  qed
qed

theorem backward_d_detached_witness:
  "set (net_params \<lparr>net_id = 2, net_params = [4]\<rparr>)
     \<inter> set (net_params \<lparr>net_id = 0, net_params = [0, 1]\<rparr>) = {}
   \<and> leaves (Batch 1) \<inter> set (net_params \<lparr>net_id = 0, net_params = [0, 1]\<rparr>) = {}
   \<and> 0 \<in> leaves (Out 0 [Init 0, Init 1] [0, 1] (Batch 0))
   \<and> fst (backward_d \<lparr>net_id = 2, net_params = [4]\<rparr> (Some (Batch 1))
            (Some (Out 0 [Init 0, Init 1] [0, 1] (Batch 0)))
            (trainer\<lparr>criterionGAN := Some FlagLoss\<rparr>, fresh_world))
       = Inr (Scale (Add (CritFlag FlagLoss (Out 2 [Init 4] [4] (Batch 1)) True)
                         (CritFlag FlagLoss
                            (Out 2 [Init 4] [4] (Detach (Out 0 [Init 0, Init 1] [0, 1] (Batch 0))))
                            False))
                    (1 / 2))
   \<and> grad (params (snd (snd (backward_d \<lparr>net_id = 2, net_params = [4]\<rparr> (Some (Batch 1))
                          (Some (Out 0 [Init 0, Init 1] [0, 1] (Batch 0)))
                          (trainer\<lparr>criterionGAN := Some FlagLoss\<rparr>, fresh_world)))) 4)
       = Some [Scale (Add (CritFlag FlagLoss (Out 2 [Init 4] [4] (Batch 1)) True)
                          (CritFlag FlagLoss
                             (Out 2 [Init 4] [4] (Detach (Out 0 [Init 0, Init 1] [0, 1] (Batch 0))))
                             False))
                     (1 / 2)]
   \<and> params (snd (snd (backward_d \<lparr>net_id = 2, net_params = [4]\<rparr> (Some (Batch 1))
                          (Some (Out 0 [Init 0, Init 1] [0, 1] (Batch 0)))
                          (trainer\<lparr>criterionGAN := Some FlagLoss\<rparr>, fresh_world)))) 0
       = params fresh_world 0"
  using backward_d_detached [where netD = "\<lparr>net_id = 2, net_params = [4]\<rparr>"
      and gen = "\<lparr>net_id = 0, net_params = [0, 1]\<rparr>" and real' = "Some (Batch 1)"
      and fake = "Some (Out 0 [Init 0, Init 1] [0, 1] (Batch 0))" and p = 0
      and self = "trainer\<lparr>criterionGAN := Some FlagLoss\<rparr>" and w = fresh_world]
    backward_d_with_flag_criterion [where netD = "\<lparr>net_id = 2, net_params = [4]\<rparr>"
      and r = "Batch 1" and f = "Out 0 [Init 0, Init 1] [0, 1] (Batch 0)"
      and self = "trainer\<lparr>criterionGAN := Some FlagLoss\<rparr>" and w = fresh_world]
  by (simp add: trainer_def sampler_def fresh_world_def term_defs accumulate_def emit_def)


section \<open>Inference\<close>

lemma keeps_world_call_on:
  assumes "\<And>c w t. obs (c, w\<lparr>trace := t\<rparr>) = obs (c, w)"
  shows "keeps obs (call_on n x)"
  using assms
  by (simp add: keeps_def call_on_def lift_def call_def emit_def split: option.splits)

lemma keeps_params_forward: "keeps (\<lambda>s. params (snd s)) forward"
  unfolding forward_def
  by (rule keeps_block) (auto intro!: keeps_and_then keeps_assign keeps_world_call_on)

lemma keeps_grad_enabled_forward: "keeps (\<lambda>s. grad_enabled (snd s)) forward"
  unfolding forward_def
  by (rule keeps_block) (auto intro!: keeps_and_then keeps_assign keeps_world_call_on)

lemma test_unfold:
  "test s = (case forward (fst s, (snd s)\<lparr>grad_enabled := False\<rparr>) of
               (r, self, w) \<Rightarrow> (r, self, w\<lparr>grad_enabled := grad_enabled (snd s)\<rparr>))"
  by (simp add: test_def Let_def)

lemma keeps_self_test:
  assumes "keeps (\<lambda>s. g (fst s)) forward"
  shows "keeps (\<lambda>s. g (fst s)) test"
  unfolding keeps_def
proof
  fix s :: "cyclegan \<times> world"
  obtain r c w where f: "forward (fst s, (snd s)\<lparr>grad_enabled := False\<rparr>) = (r, c, w)"
    by (cases "forward (fst s, (snd s)\<lparr>grad_enabled := False\<rparr>)") auto
  from keepsD [OF assms, of "(fst s, (snd s)\<lparr>grad_enabled := False\<rparr>)"] f
  show "g (fst (snd (test s))) = g (fst s)"
    by (simp add: test_unfold)
qed

lemma test_params: "params (snd (snd (test s))) = params (snd s)"
proof -
  obtain r c w where f: "forward (fst s, (snd s)\<lparr>grad_enabled := False\<rparr>) = (r, c, w)"
    by (cases "forward (fst s, (snd s)\<lparr>grad_enabled := False\<rparr>)") auto
  from keepsD [OF keeps_params_forward, of "(fst s, (snd s)\<lparr>grad_enabled := False\<rparr>)"] f
  show ?thesis by (simp add: test_unfold)
qed

lemma test_losses:
  "loss_G (fst (snd (test s))) = loss_G (fst s)"
  "loss_genA (fst (snd (test s))) = loss_genA (fst s)"
  "loss_genB (fst (snd (test s))) = loss_genB (fst s)"
  "loss_cycle_A (fst (snd (test s))) = loss_cycle_A (fst s)"
  "loss_cycle_B (fst (snd (test s))) = loss_cycle_B (fst s)"
  "loss_disA (fst (snd (test s))) = loss_disA (fst s)"
  "loss_disB (fst (snd (test s))) = loss_disB (fst s)"
  by (rule keepsD [OF keeps_self_test [OF keeps_self_forward]]; simp)+

text \<open>
  C9. \<^verbatim>\<open>test()\<close> runs \<^verbatim>\<open>forward()\<close> with the gradient mode off and restores the mode.
  After \<^verbatim>\<open>set_input\<close>, when the generators take their inputs, it stores \<^verbatim>\<open>fake_B\<close>,
  \<^verbatim>\<open>new_A\<close>, \<^verbatim>\<open>fake_A\<close> and \<^verbatim>\<open>new_B\<close>, each computed without gradient history, and the world
  differs from the one before only in the trace of the four generator calls. Whatever the state
  and the outcome, no parameter cell and no loss attribute changes.
\<close>

theorem test_no_grad:
  fixes self :: cyclegan and w :: world and ra rb :: tensor and s :: "cyclegan \<times> world"
  defines "gA \<equiv> GenA self" and "gB \<equiv> GenB self"
  defines "fb \<equiv> NoGrad (Out (net_id gA) (state_dict gA w) (tracked gA w) ra)"
      and "fa \<equiv> NoGrad (Out (net_id gB) (state_dict gB w) (tracked gB w) rb)"
  defines "na \<equiv> NoGrad (Out (net_id gB) (state_dict gB w) (tracked gB w) fb)"
      and "nb \<equiv> NoGrad (Out (net_id gA) (state_dict gA w) (tracked gA w) fa)"
  assumes "real_A self = Some ra" and "real_B self = Some rb"
      and "accepts w (net_id gA) ra" and "accepts w (net_id gB) fb"
      and "accepts w (net_id gB) rb" and "accepts w (net_id gA) fa"
  shows "test (self, w) =
           (Inr (),
            self\<lparr>fake_B := Some fb, new_A := Some na, fake_A := Some fa, new_B := Some nb\<rparr>,
            w\<lparr>trace := trace w @ [Call (net_id gA) ra, Call (net_id gB) fb,
                                   Call (net_id gB) rb, Call (net_id gA) fa]\<rparr>)
         \<and> params (snd (snd (test s))) = params (snd s)
         \<and> loss_G (fst (snd (test s))) = loss_G (fst s)
         \<and> loss_genA (fst (snd (test s))) = loss_genA (fst s)
         \<and> loss_genB (fst (snd (test s))) = loss_genB (fst s)
         \<and> loss_cycle_A (fst (snd (test s))) = loss_cycle_A (fst s)
         \<and> loss_cycle_B (fst (snd (test s))) = loss_cycle_B (fst s)
         \<and> loss_disA (fst (snd (test s))) = loss_disA (fst s)
         \<and> loss_disB (fst (snd (test s))) = loss_disB (fst s)"
proof -
  have "test (self, w) =
           (Inr (),
            self\<lparr>fake_B := Some fb, new_A := Some na, fake_A := Some fa, new_B := Some nb\<rparr>,
            w\<lparr>trace := trace w @ [Call (net_id gA) ra, Call (net_id gB) fb,
                                   Call (net_id gB) rb, Call (net_id gA) fa]\<rparr>)"
    using assms(7-12) unfolding assms(1-6)
    by (simp add: test_def forward_def action_defs call_def emit_def net_output_def record_op_def
          state_dict_def tracked_def)
  then show ?thesis by (simp only: test_params test_losses simp_thms)
qed

theorem test_no_grad_witness:
  "real_A (sampler\<lparr>real_A := Some (Batch 0), real_B := Some (Batch 1)\<rparr>) = Some (Batch 0)
   \<and> accepts fresh_world 0 (Batch 0)
   \<and> fst (test (sampler\<lparr>real_A := Some (Batch 0), real_B := Some (Batch 1)\<rparr>, fresh_world)) = Inr ()
   \<and> fake_B (fst (snd (test (sampler\<lparr>real_A := Some (Batch 0), real_B := Some (Batch 1)\<rparr>,
                                 fresh_world))))
       = Some (NoGrad (Out 0 [Init 0, Init 1] [0, 1] (Batch 0)))
   \<and> fake_A (fst (snd (test (sampler\<lparr>real_A := Some (Batch 0), real_B := Some (Batch 1)\<rparr>,
                                 fresh_world))))
       = Some (NoGrad (Out 1 [Init 2, Init 3] [2, 3] (Batch 1)))
   \<and> params (snd (snd (test (sampler\<lparr>real_A := Some (Batch 0), real_B := Some (Batch 1)\<rparr>,
                                 fresh_world))))
       = params fresh_world"
  using test_no_grad [where self = "sampler\<lparr>real_A := Some (Batch 0), real_B := Some (Batch 1)\<rparr>"
      and w = fresh_world and ra = "Batch 0" and rb = "Batch 1"
      and s = "(sampler\<lparr>real_A := Some (Batch 0), real_B := Some (Batch 1)\<rparr>, fresh_world)"]
  by (simp add: sampler_def fresh_world_def term_defs)


section \<open>Construction and the checkpoint\<close>

lemma fits_update [simp]:
  "fits (w\<lparr>params := f\<rparr>) = fits w" "fits (w\<lparr>trace := t\<rparr>) = fits w"
  "fits (w\<lparr>next_param := a\<rparr>) = fits w" "fits (w\<lparr>next_net := b\<rparr>) = fits w"
  by (simp_all add: fits_def fun_eq_iff)

lemma stored_update [simp]:
  "stored (w\<lparr>params := f\<rparr>) = stored w" "stored (w\<lparr>trace := t\<rparr>) = stored w"
  "stored (w\<lparr>next_param := a\<rparr>) = stored w" "stored (w\<lparr>next_net := b\<rparr>) = stored w"
  by (simp_all add: stored_def fun_eq_iff)

lemma load_into_eq:
  "load_into n file (self, w) =
     (case n self of
        None \<Rightarrow> (Inl AttributeError, self, w)
      | Some m \<Rightarrow>
          if fits w (file_prefix' self @ file) (length (net_params m))
          then (Inr (), self,
                w\<lparr>params := (\<lambda>p. case map_of (zip (net_params m)
                                                   (stored w (file_prefix' self @ file))) p of
                                     None \<Rightarrow> params w p
                                   | Some v \<Rightarrow> (params w p)\<lparr>weight := v\<rparr>),
                  trace := trace w @ [Load (file_prefix' self @ file), LoadStateDict (net_id m)]\<rparr>)
          else (Inl CheckpointLoadError, self,
                w\<lparr>trace := trace w @ [Load (file_prefix' self @ file)]\<rparr>))"
  apply (auto simp: load_into_def action_defs torch_load_def load_state_dict_def emit_def fits_def
      stored_def split: option.splits blob.splits)
  apply (rule world.equality; simp cong: option.case_cong)
  done

lemma load_checkpoint_inference:
  fixes c :: cyclegan and w :: world
  defines "ga \<equiv> file_prefix' c @ ''generator_a.pth''"
      and "gb \<equiv> file_prefix' c @ ''generator_b.pth''"
  defines "ok \<equiv> fits w ga (length (net_params (GenA c))) \<and> fits w gb (length (net_params (GenB c)))"
  shows "fst (load_checkpoint False (c, w)) = (if ok then Inr () else Inl CheckpointLoadError)"
    and "ok \<Longrightarrow> trace (snd (snd (load_checkpoint False (c, w)))) =
           trace w @ [Load ga, LoadStateDict (net_id (GenA c)),
                      Load gb, LoadStateDict (net_id (GenB c))]"
  unfolding assms
  by (simp_all add: load_checkpoint_def and_then_def load_into_eq)

lemma load_checkpoint_training:
  fixes c :: cyclegan and w :: world and dA dB :: net
  defines "ga \<equiv> file_prefix' c @ ''generator_a.pth''"
      and "gb \<equiv> file_prefix' c @ ''generator_b.pth''"
      and "da \<equiv> file_prefix' c @ ''discriminator_a.pth''"
      and "db \<equiv> file_prefix' c @ ''discriminator_b.pth''"
  defines "ok \<equiv> fits w ga (length (net_params (GenA c))) \<and> fits w gb (length (net_params (GenB c)))
                \<and> fits w da (length (net_params dA)) \<and> fits w db (length (net_params dB))"
  assumes "DisA c = Some dA" and "DisB c = Some dB"
  shows "fst (load_checkpoint True (c, w)) = (if ok then Inr () else Inl CheckpointLoadError)"
    and "ok \<Longrightarrow> trace (snd (snd (load_checkpoint True (c, w)))) =
           trace w @ [Load ga, LoadStateDict (net_id (GenA c)),
                      Load gb, LoadStateDict (net_id (GenB c)),
                      Load da, LoadStateDict (net_id dA),
                      Load db, LoadStateDict (net_id dB)]"
  using assms(6,7) unfolding assms(1-5)
  by (simp_all add: load_checkpoint_def and_then_def load_into_eq)

lemma init_result:
  assumes "construct dev prefix rate b1 training w0 = (c, w3)"
  shows "fst (init opts dev prefix rate b1 training w0) =
           (if file_exists (epoch_tracker c)
            then (case fst (load_checkpoint training (c, w3)) of
                    Inl e \<Rightarrow> Inl e
                  | Inr u \<Rightarrow> Inr (fst (snd (load_checkpoint training (c, w3)))))
            else Inr c)"
    and "snd (init opts dev prefix rate b1 training w0) =
           (if file_exists (epoch_tracker c) then snd (snd (load_checkpoint training (c, w3)))
            else w3)"
  using assms by (simp_all add: init_def split: prod.splits sum.splits)

lemma construct_world:
  assumes "construct dev prefix rate b1 training w0 = (c, w3)"
  shows "files w3 = files w0" and "trace w3 = trace w0"
    and "file_exists (epoch_tracker c) = (files w0 (prefix @ ''epoch.txt'') \<noteq> None)"
    and "file_prefix' c = prefix"
    and "net_id (GenA c) = next_net w0" and "net_id (GenB c) = Suc (next_net w0)"
    and "length (net_params (GenA c)) = generator_size w0"
    and "length (net_params (GenB c)) = generator_size w0"
  using assms
  by (auto simp: construct_def Let_def split_def EpochTracker_def CycleGanResnetGenerator_def
      CycleGanDiscriminator_def new_net_def split: if_splits)

lemma construct_discriminators:
  assumes "construct dev prefix rate b1 True w0 = (c, w3)"
  shows "\<exists>dA dB. DisA c = Some dA \<and> DisB c = Some dB
           \<and> net_id dA = Suc (Suc (next_net w0)) \<and> net_id dB = Suc (Suc (Suc (next_net w0)))
           \<and> length (net_params dA) = discriminator_size w0
           \<and> length (net_params dB) = discriminator_size w0"
  using assms
  by (auto simp: construct_def Let_def split_def EpochTracker_def CycleGanResnetGenerator_def
      CycleGanDiscriminator_def new_net_def)

lemma fits_files: "files w' = files w \<Longrightarrow> fits w' = fits w"
  by (simp add: fits_def fun_eq_iff)

lemma zip_weights_self:
  assumes "distinct ps" and "length ws = length ps"
  shows "map (\<lambda>p. weight (case map_of (zip ps ws) p of
                             None \<Rightarrow> f p | Some v \<Rightarrow> (f p)\<lparr>weight := v\<rparr>)) ps = ws"
proof (rule nth_equalityI)
  show "length (map (\<lambda>p. weight (case map_of (zip ps ws) p of
                             None \<Rightarrow> f p | Some v \<Rightarrow> (f p)\<lparr>weight := v\<rparr>)) ps) = length ws"
    using assms(2) by simp
next
  fix i
  assume "i < length (map (\<lambda>p. weight (case map_of (zip ps ws) p of
                             None \<Rightarrow> f p | Some v \<Rightarrow> (f p)\<lparr>weight := v\<rparr>)) ps)"
  then have i: "i < length ps" by simp
  with assms have "map_of (zip ps ws) (ps ! i) = Some (ws ! i)"
    by (simp add: map_of_zip_nth)
  with i show "map (\<lambda>p. weight (case map_of (zip ps ws) p of
                             None \<Rightarrow> f p | Some v \<Rightarrow> (f p)\<lparr>weight := v\<rparr>)) ps ! i = ws ! i"
    by simp
qed

lemma zip_weights_other:
  assumes "set qs \<inter> set ps = {}"
  shows "map (\<lambda>p. weight (case map_of (zip ps ws) p of
                             None \<Rightarrow> f p | Some v \<Rightarrow> (f p)\<lparr>weight := v\<rparr>)) qs
         = map (\<lambda>p. weight (f p)) qs"
proof (rule map_cong [OF refl])
  fix q
  assume "q \<in> set qs"
  with assms have "q \<notin> set ps" by blast
  then have "map_of (zip ps ws) q = None"
    by (auto simp: map_of_eq_None_iff dest: set_zip_leftD)
  then show "weight (case map_of (zip ps ws) q of
                             None \<Rightarrow> f q | Some v \<Rightarrow> (f q)\<lparr>weight := v\<rparr>) = weight (f q)"
    by simp
qed

lemma load_into_state:
  assumes "n c = Some m" and "fits w (file_prefix' c @ fname) (length (net_params m))"
  shows "load_into n fname (c, w) = (Inr (), c, snd (snd (load_into n fname (c, w))))"
    and "distinct (net_params m) \<Longrightarrow>
           state_dict m (snd (snd (load_into n fname (c, w)))) = stored w (file_prefix' c @ fname)"
    and "set (net_params m') \<inter> set (net_params m) = {} \<Longrightarrow>
           state_dict m' (snd (snd (load_into n fname (c, w)))) = state_dict m' w"
    and "fits (snd (snd (load_into n fname (c, w)))) = fits w"
    and "stored (snd (snd (load_into n fname (c, w)))) = stored w"
proof -
  from assms(2) have len: "length (stored w (file_prefix' c @ fname)) = length (net_params m)"
    by (auto simp: fits_def stored_def split: option.splits blob.splits)
  show "load_into n fname (c, w) = (Inr (), c, snd (snd (load_into n fname (c, w))))"
    using assms by (simp add: load_into_eq)
  show "state_dict m (snd (snd (load_into n fname (c, w)))) = stored w (file_prefix' c @ fname)"
    if "distinct (net_params m)"
    using assms that len by (simp add: load_into_eq state_dict_def zip_weights_self)
  show "state_dict m' (snd (snd (load_into n fname (c, w)))) = state_dict m' w"
    if "set (net_params m') \<inter> set (net_params m) = {}"
    using assms that by (simp add: load_into_eq state_dict_def zip_weights_other)
  show "fits (snd (snd (load_into n fname (c, w)))) = fits w"
    using assms by (simp add: load_into_eq)
  show "stored (snd (snd (load_into n fname (c, w)))) = stored w"
    using assms by (simp add: load_into_eq)
qed

lemma load_checkpoint_weights_inference:
  fixes c :: cyclegan and w :: world
  defines "ga \<equiv> file_prefix' c @ ''generator_a.pth''"
      and "gb \<equiv> file_prefix' c @ ''generator_b.pth''"
  defines "w' \<equiv> snd (snd (load_checkpoint False (c, w)))"
  assumes ok: "fits w ga (length (net_params (GenA c)))" "fits w gb (length (net_params (GenB c)))"
    and dist: "distinct (net_params (GenA c))" "distinct (net_params (GenB c))"
    and disj: "set (net_params (GenA c)) \<inter> set (net_params (GenB c)) = {}"
  shows "state_dict (GenA c) w' = stored w ga" and "state_dict (GenB c) w' = stored w gb"
proof -
  define w1 where "w1 = snd (snd (load_into (\<lambda>c. Some (GenA c)) ''generator_a.pth'' (c, w)))"
  note l1 = load_into_state [where n = "\<lambda>c. Some (GenA c)" and c = c and m = "GenA c"
      and fname = "''generator_a.pth''" and w = w, OF refl ok(1) [unfolded ga_def],
      folded w1_def ga_def]
  have ok2: "fits w1 (file_prefix' c @ ''generator_b.pth'') (length (net_params (GenB c)))"
    using ok(2) by (simp add: l1(4) gb_def)
  define w2 where "w2 = snd (snd (load_into (\<lambda>c. Some (GenB c)) ''generator_b.pth'' (c, w1)))"
  note l2 = load_into_state [where n = "\<lambda>c. Some (GenB c)" and c = c and m = "GenB c"
      and fname = "''generator_b.pth''" and w = w1, OF refl ok2, folded w2_def gb_def]
  have "load_checkpoint False (c, w) = (Inr (), c, w2)"
    by (simp only: load_checkpoint_def if_False append_Nil2 block_step block.simps(1) l1(1) l2(1)
          prod.case sum.case)
  then have w': "w' = w2" by (simp add: w'_def)
  from disj have disj': "set (net_params (GenA c)) \<inter> set (net_params (GenB c)) = {}" .
  show "state_dict (GenA c) w' = stored w ga"
    unfolding w' using l2(3) [of "GenA c", OF disj'] l1(2) [OF dist(1)] by simp
  show "state_dict (GenB c) w' = stored w gb"
    unfolding w' using l2(2) [OF dist(2)] l1(5) by simp
qed

lemma load_checkpoint_weights_training:
  fixes c :: cyclegan and w :: world and dA dB :: net
  defines "ga \<equiv> file_prefix' c @ ''generator_a.pth''"
      and "gb \<equiv> file_prefix' c @ ''generator_b.pth''"
      and "da \<equiv> file_prefix' c @ ''discriminator_a.pth''"
      and "db \<equiv> file_prefix' c @ ''discriminator_b.pth''"
  defines "w' \<equiv> snd (snd (load_checkpoint True (c, w)))"
  assumes d: "DisA c = Some dA" "DisB c = Some dB"
    and ok: "fits w ga (length (net_params (GenA c)))" "fits w gb (length (net_params (GenB c)))"
      "fits w da (length (net_params dA))" "fits w db (length (net_params dB))"
    and dist: "distinct (net_params (GenA c) @ net_params (GenB c) @ net_params dA @ net_params dB)"
  shows "state_dict (GenA c) w' = stored w ga" and "state_dict (GenB c) w' = stored w gb"
    and "state_dict dA w' = stored w da" and "state_dict dB w' = stored w db"
proof -
  from dist have dt: "distinct (net_params (GenA c))" "distinct (net_params (GenB c))"
      "distinct (net_params dA)" "distinct (net_params dB)"
    and dj: "set (net_params (GenA c)) \<inter> set (net_params (GenB c)) = {}"
      "set (net_params (GenA c)) \<inter> set (net_params dA) = {}"
      "set (net_params (GenA c)) \<inter> set (net_params dB) = {}"
      "set (net_params (GenB c)) \<inter> set (net_params dA) = {}"
      "set (net_params (GenB c)) \<inter> set (net_params dB) = {}"
      "set (net_params dA) \<inter> set (net_params dB) = {}"
    by auto
  define w1 where "w1 = snd (snd (load_into (\<lambda>c. Some (GenA c)) ''generator_a.pth'' (c, w)))"
  note l1 = load_into_state [where n = "\<lambda>c. Some (GenA c)" and c = c and m = "GenA c"
      and fname = "''generator_a.pth''" and w = w, OF refl ok(1) [unfolded ga_def],
      folded w1_def ga_def]
  have ok2: "fits w1 (file_prefix' c @ ''generator_b.pth'') (length (net_params (GenB c)))"
    using ok(2) by (simp add: l1(4) gb_def)
  define w2 where "w2 = snd (snd (load_into (\<lambda>c. Some (GenB c)) ''generator_b.pth'' (c, w1)))"
  note l2 = load_into_state [where n = "\<lambda>c. Some (GenB c)" and c = c and m = "GenB c"
      and fname = "''generator_b.pth''" and w = w1, OF refl ok2, folded w2_def gb_def]
  have ok3: "fits w2 (file_prefix' c @ ''discriminator_a.pth'') (length (net_params dA))"
    using ok(3) by (simp add: l1(4) l2(4) da_def)
  define w3 where "w3 = snd (snd (load_into DisA ''discriminator_a.pth'' (c, w2)))"
  note l3 = load_into_state [where n = DisA and c = c and m = dA
      and fname = "''discriminator_a.pth''" and w = w2, OF d(1) ok3, folded w3_def da_def]
  have ok4: "fits w3 (file_prefix' c @ ''discriminator_b.pth'') (length (net_params dB))"
    using ok(4) by (simp add: l1(4) l2(4) l3(4) db_def)
  define w4 where "w4 = snd (snd (load_into DisB ''discriminator_b.pth'' (c, w3)))"
  note l4 = load_into_state [where n = DisB and c = c and m = dB
      and fname = "''discriminator_b.pth''" and w = w3, OF d(2) ok4, folded w4_def db_def]
  have "load_checkpoint True (c, w) = (Inr (), c, w4)"
    by (simp only: load_checkpoint_def if_True append.simps block_step block.simps(1)
          l1(1) l2(1) l3(1) l4(1) prod.case sum.case)
  then have w': "w' = w4" by (simp add: w'_def)
  have i: "set B \<inter> set A = {}" if "set A \<inter> set B = {}" for A B :: "nat list"
    using that by blast
  show "state_dict (GenA c) w' = stored w ga"
    unfolding w'
    using l4(3) [of "GenA c", OF dj(3)] l3(3) [of "GenA c", OF dj(2)]
      l2(3) [of "GenA c", OF dj(1)] l1(2) [OF dt(1)]
    by simp
  show "state_dict (GenB c) w' = stored w gb"
    unfolding w'
    using l4(3) [of "GenB c", OF dj(5)] l3(3) [of "GenB c", OF dj(4)] l2(2) [OF dt(2)] l1(5)
    by simp
  show "state_dict dA w' = stored w da"
    unfolding w'
    using l4(3) [of dA, OF dj(6)] l3(2) [OF dt(3)] l2(5) l1(5)
    by simp
  show "state_dict dB w' = stored w db"
    unfolding w'
    using l4(2) [OF dt(4)] l3(5) l2(5) l1(5)
    by simp
qed

lemma construct_params:
  assumes "construct dev prefix rate b1 training w0 = (c, w3)"
  shows "distinct (net_params (GenA c))" and "distinct (net_params (GenB c))"
    and "set (net_params (GenA c)) \<inter> set (net_params (GenB c)) = {}"
    and "stored w3 = stored w0"
    and "state_dict (GenA c) w3 = map Init (net_params (GenA c))"
    and "state_dict (GenB c) w3 = map Init (net_params (GenB c))"
  using assms
  by (auto simp: construct_def Let_def split_def EpochTracker_def CycleGanResnetGenerator_def
      CycleGanDiscriminator_def new_net_def stored_def fun_eq_iff state_dict_def split: if_splits)

lemma construct_params_training:
  assumes "construct dev prefix rate b1 True w0 = (c, w3)" and "DisA c = Some dA" and "DisB c = Some dB"
  shows "distinct (net_params (GenA c) @ net_params (GenB c) @ net_params dA @ net_params dB)"
    and "state_dict dA w3 = map Init (net_params dA)"
    and "state_dict dB w3 = map Init (net_params dB)"
  using assms
  by (auto simp: construct_def Let_def split_def EpochTracker_def CycleGanResnetGenerator_def
      CycleGanDiscriminator_def new_net_def state_dict_def)

text \<open>
  C5. Construction, by whether the epoch marker exists at the prefix. Without the marker the
  constructor succeeds, loads nothing, and the generators keep their fresh weights. With the
  marker it loads, in this order, the two generator files, and in training mode the two
  discriminator files after them, each into its network, and nothing else; it succeeds when every
  file it loads fits its network, and then each loaded network has the weights of its file (an
  inference controller has no discriminator); it fails with \<open>CheckpointLoadError\<close>,
  returning no controller, when one of the files it loads is missing or malformed.
\<close>

theorem checkpoint_loading:
  fixes w0 :: world and prefix dev :: string and training :: bool and rate b1 :: real and opts :: "'o"
  defines "marker \<equiv> files w0 (prefix @ ''epoch.txt'') \<noteq> None"
  defines "ga \<equiv> prefix @ ''generator_a.pth''" and "gb \<equiv> prefix @ ''generator_b.pth''"
      and "da \<equiv> prefix @ ''discriminator_a.pth''" and "db \<equiv> prefix @ ''discriminator_b.pth''"
  defines "gen_ok \<equiv> fits w0 ga (generator_size w0) \<and> fits w0 gb (generator_size w0)"
      and "dis_ok \<equiv> fits w0 da (discriminator_size w0) \<and> fits w0 db (discriminator_size w0)"
  defines "result \<equiv> init opts dev prefix rate b1 training w0"
  shows "(\<not> marker \<longrightarrow>
            (\<exists>self. fst result = Inr self
               \<and> state_dict (GenA self) (snd result) = map Init (net_params (GenA self))
               \<and> state_dict (GenB self) (snd result) = map Init (net_params (GenB self)))
            \<and> trace (snd result) = trace w0)
       \<and> (marker \<and> training \<and> gen_ok \<and> dis_ok \<longrightarrow>
            (\<exists>self dA dB. fst result = Inr self \<and> DisA self = Some dA \<and> DisB self = Some dB
               \<and> state_dict (GenA self) (snd result) = stored w0 ga
               \<and> state_dict (GenB self) (snd result) = stored w0 gb
               \<and> state_dict dA (snd result) = stored w0 da
               \<and> state_dict dB (snd result) = stored w0 db)
            \<and> trace (snd result) =
                trace w0 @ [Load ga, LoadStateDict (next_net w0),
                            Load gb, LoadStateDict (Suc (next_net w0)),
                            Load da, LoadStateDict (Suc (Suc (next_net w0))),
                            Load db, LoadStateDict (Suc (Suc (Suc (next_net w0))))])
       \<and> (marker \<and> \<not> training \<and> gen_ok \<longrightarrow>
            (\<exists>self. fst result = Inr self \<and> DisA self = None \<and> DisB self = None
               \<and> state_dict (GenA self) (snd result) = stored w0 ga
               \<and> state_dict (GenB self) (snd result) = stored w0 gb)
            \<and> trace (snd result) =
                trace w0 @ [Load ga, LoadStateDict (next_net w0),
                            Load gb, LoadStateDict (Suc (next_net w0))])
       \<and> (marker \<and> training \<and> \<not> (gen_ok \<and> dis_ok) \<longrightarrow> fst result = Inl CheckpointLoadError)
       \<and> (marker \<and> \<not> training \<and> \<not> gen_ok \<longrightarrow> fst result = Inl CheckpointLoadError)"
proof -
  obtain c w3 where cw: "construct dev prefix rate b1 training w0 = (c, w3)"
    by (cases "construct dev prefix rate b1 training w0") auto
  note cf = construct_world [OF cw]
  note cp = construct_params [OF cw]
  have fits: "fits w3 = fits w0" by (rule fits_files) (rule cf(1))
  have kept: "fst (snd (load_checkpoint training (c, w3))) = c"
    using keepsD [OF keeps_load_checkpoint [of fst training], of "(c, w3)"]
    by (simp add: self_only_def)
  show ?thesis
  proof (cases training)
    case False
    then have tr: "training = False" by simp
    note cw' = cw [unfolded tr]
    have none: "DisA c = None" "DisB c = None"
      using construct_attrs(5,6) [of False dev prefix rate b1 w0] cw' by simp_all
    have loaded: "state_dict (GenA c) (snd (snd (load_checkpoint False (c, w3)))) = stored w0 ga
                \<and> state_dict (GenB c) (snd (snd (load_checkpoint False (c, w3)))) = stored w0 gb"
      if "gen_ok"
      using load_checkpoint_weights_inference [of w3 c] that cp cf fits
      unfolding gen_ok_def ga_def gb_def by simp
    from cf fits cp(5,6) none kept [unfolded tr] loaded show ?thesis
      unfolding assms tr
      by (simp add: init_result [OF cw'] load_checkpoint_inference)
  next
    case True
    then have tr: "training = True" by simp
    note cw' = cw [unfolded tr]
    from construct_discriminators [OF cw'] obtain dA dB where
      d: "DisA c = Some dA" "DisB c = Some dB"
         "net_id dA = Suc (Suc (next_net w0))" "net_id dB = Suc (Suc (Suc (next_net w0)))"
         "length (net_params dA) = discriminator_size w0"
         "length (net_params dB) = discriminator_size w0"
      by blast
    note ct = construct_params_training [OF cw' d(1,2)]
    have loaded: "state_dict (GenA c) (snd (snd (load_checkpoint True (c, w3)))) = stored w0 ga
                \<and> state_dict (GenB c) (snd (snd (load_checkpoint True (c, w3)))) = stored w0 gb
                \<and> state_dict dA (snd (snd (load_checkpoint True (c, w3)))) = stored w0 da
                \<and> state_dict dB (snd (snd (load_checkpoint True (c, w3)))) = stored w0 db"
      if "gen_ok" "dis_ok"
      using load_checkpoint_weights_training [of c dA dB w3, OF d(1,2) _ _ _ _ ct(1)] that cp cf fits d
      unfolding gen_ok_def dis_ok_def ga_def gb_def da_def db_def by simp
    from cf fits cp(5,6) d kept [unfolded tr] loaded show ?thesis
      unfolding assms tr
      by (simp add: init_result [OF cw'] load_checkpoint_training [OF d(1,2)])
  qed
qed

theorem checkpoint_loading_witness:
  "files resumed_world ''run/epoch.txt'' \<noteq> None
   \<and> fits resumed_world ''run/generator_a.pth'' (generator_size resumed_world)
   \<and> fits resumed_world ''run/generator_b.pth'' (generator_size resumed_world)
   \<and> \<not> fits resumed_world ''run/discriminator_a.pth'' (discriminator_size resumed_world)
   \<and> fst (init () ''cpu'' ''run/'' (1 / 5000) (1 / 2) True resumed_world) = Inl CheckpointLoadError
   \<and> (\<exists>self. fst (init () ''cpu'' ''run/'' (1 / 5000) (1 / 2) False resumed_world) = Inr self
         \<and> DisA self = None \<and> DisB self = None
         \<and> state_dict (GenA self) (snd (init () ''cpu'' ''run/'' (1 / 5000) (1 / 2) False resumed_world))
             = [Init 7, Init 8]
         \<and> state_dict (GenB self) (snd (init () ''cpu'' ''run/'' (1 / 5000) (1 / 2) False resumed_world))
             = [Init 9, Init 10])
   \<and> trace (snd (init () ''cpu'' ''run/'' (1 / 5000) (1 / 2) False resumed_world))
       = [Load ''run/generator_a.pth'', LoadStateDict 0, Load ''run/generator_b.pth'',
          LoadStateDict 1]"
  using checkpoint_loading [where ?w0.0 = resumed_world and prefix = "''run/''" and training = True
          and opts = "()" and dev = "''cpu''" and rate = "1 / 5000" and ?b1.0 = "1 / 2"]
        checkpoint_loading [where ?w0.0 = resumed_world and prefix = "''run/''" and training = False
          and opts = "()" and dev = "''cpu''" and rate = "1 / 5000" and ?b1.0 = "1 / 2"]
  by (simp add: resumed_world_def fresh_world_def fits_def stored_def)

section \<open>One training step\<close>

text \<open>
  What the primitives of the substrate leave alone. From here on \<^verbatim>\<open>set_requires_grad\<close> is
  used through its closed form.
\<close>

declare set_requires_grad.simps [simp del]

lemma accumulate_frame [simp]:
  "grad_enabled (accumulate l w) = grad_enabled w"
  "accepts (accumulate l w) = accepts w"
  "weight (params (accumulate l w) p) = weight (params w p)"
  "requires_grad (params (accumulate l w) p) = requires_grad (params w p)"
  "trace (accumulate l w) = trace w @ [Backward l]"
  by (simp_all add: accumulate_def emit_def)

lemma zero_grad_frame [simp]:
  "grad_enabled (zero_grad opt w) = grad_enabled w"
  "accepts (zero_grad opt w) = accepts w"
  "weight (params (zero_grad opt w) p) = weight (params w p)"
  "requires_grad (params (zero_grad opt w) p) = requires_grad (params w p)"
  "trace (zero_grad opt w) = trace w @ [ZeroGrad (opt_params opt)]"
  by (simp_all add: zero_grad_def emit_def)

lemma step_frame [simp]:
  "grad_enabled (step opt w) = grad_enabled w"
  "accepts (step opt w) = accepts w"
  "requires_grad (params (step opt w) p) = requires_grad (params w p)"
  "trace (step opt w) = trace w @ [Step (opt_params opt)]"
  by (simp_all add: step_def emit_def split: option.splits)

lemma step_weight:
  "p \<notin> set (opt_params opt) \<Longrightarrow> weight (params (step opt w) p) = weight (params w p)"
  by (simp add: step_def emit_def)

lemma set_requires_grad_frame [simp]:
  "grad_enabled (set_requires_grad nets b w) = grad_enabled w"
  "accepts (set_requires_grad nets b w) = accepts w"
  "weight (params (set_requires_grad nets b w) p) = weight (params w p)"
  "trace (set_requires_grad nets b w) = trace w @ map (\<lambda>p. RequiresGrad p b) (parameters_of nets)"
  by (simp_all add: set_requires_grad_closed)

lemma set_requires_grad_flag:
  "p \<in> set (parameters_of nets) \<Longrightarrow> requires_grad (params (set_requires_grad nets b w) p) = b"
  by (simp add: set_requires_grad_closed)

lemma trace_update_frame [simp]:
  "state_dict n (w\<lparr>trace := t\<rparr>) = state_dict n w"
  "tracked n (w\<lparr>trace := t\<rparr>) = tracked n w"
  by (simp_all add: state_dict_def tracked_def)

lemma state_dict_eqI:
  assumes "\<And>p. p \<in> set (net_params n) \<Longrightarrow> weight (params w' p) = weight (params w p)"
  shows "state_dict n w' = state_dict n w"
  using assms by (simp add: state_dict_def)

lemma tracked_eqI:
  assumes "\<And>p. p \<in> set (net_params n) \<Longrightarrow>
             requires_grad (params w' p) = requires_grad (params w p)"
  shows "tracked n w' = tracked n w"
  using assms unfolding tracked_def by (auto intro: filter_cong)

lemma tracked_all:
  assumes "\<And>p. p \<in> set (net_params n) \<Longrightarrow> requires_grad (params w p)"
  shows "tracked n w = net_params n"
  using assms by (simp add: tracked_def)

lemma tracked_none:
  assumes "\<And>p. p \<in> set (net_params n) \<Longrightarrow> \<not> requires_grad (params w p)"
  shows "tracked n w = []"
  using assms by (simp add: tracked_def)

lemma state_dict_frame [simp]:
  "state_dict n (accumulate l w) = state_dict n w"
  "state_dict n (zero_grad opt w) = state_dict n w"
  "state_dict n (set_requires_grad nets b w) = state_dict n w"
  by (rule state_dict_eqI, simp)+

lemma state_dict_step:
  assumes "set (opt_params opt) \<inter> set (net_params n) = {}"
  shows "state_dict n (step opt w) = state_dict n w"
proof (rule state_dict_eqI)
  fix p
  assume "p \<in> set (net_params n)"
  with assms have "p \<notin> set (opt_params opt)" by blast
  then show "weight (params (step opt w) p) = weight (params w p)" by (rule step_weight)
qed

lemma tracked_frame [simp]:
  "tracked n (accumulate l w) = tracked n w"
  "tracked n (zero_grad opt w) = tracked n w"
  "tracked n (step opt w) = tracked n w"
  by (rule tracked_eqI, simp)+

lemma tracked_set_requires_grad:
  assumes "set (net_params n) \<subseteq> set (parameters_of nets)"
  shows "tracked n (set_requires_grad nets b w) = (if b then net_params n else [])"
proof (cases b)
  case True
  with assms show ?thesis by (auto intro!: tracked_all simp: set_requires_grad_flag)
next
  case False
  with assms show ?thesis by (auto intro!: tracked_none simp: set_requires_grad_flag)
qed

lemma record_op_on: "grad_enabled w \<Longrightarrow> record_op w t = t"
  by (simp add: record_op_def)

lemmas terms_on = tensor_to_def tensor_add_def tensor_scale_def tensor_cat_def loss_flag_def
  loss_pair_def net_output_def record_op_on

text \<open>The constructor, in training mode, wires the controller the way the next lemmas suppose.\<close>

lemma constructed_for_training:
  assumes "init opts dev prefix rate b1 True w0 = (Inr self, w)"
  shows "\<exists>dA dB og od.
           DisA self = Some dA \<and> DisB self = Some dB
           \<and> criterionGAN self = Some BCELoss \<and> criterionCycle self = Some L1Loss
           \<and> optimizer_g self = Some og \<and> optimizer_d self = Some od
           \<and> opt_params og = net_params (GenA self) @ net_params (GenB self)
           \<and> opt_params od = net_params dA @ net_params dB
           \<and> set (opt_params og) \<inter> (set (net_params dA) \<union> set (net_params dB)) = {}"
  unfolding init_self [OF assms]
  by (auto simp: construct_def Let_def split_def CycleGanResnetGenerator_def
      CycleGanDiscriminator_def new_net_def)

text \<open>
  Without a criterion that takes a flag, a training step never gets past \<^verbatim>\<open>backward_g()\<close>.
\<close>

lemma train_never_returns:
  "fails_when (\<lambda>s. criterionGAN (fst s) \<noteq> Some FlagLoss) train"
  unfolding train_def
  apply (rule fails_later, rule stable_forward [of "\<lambda>c. criterionGAN c \<noteq> Some FlagLoss"],
         simp add: stable_def)
  apply (rule fails_later, (intro keeps_intros self_only_fst)[1])
  apply (rule fails_later, (intro keeps_intros self_only_fst)[1])
  apply (rule fails_now)
  apply (rule backward_g_never_returns)
  done

lemma train_stops:
  fixes self :: cyclegan and w :: world and dA dB :: net and og :: optimizer and ra rb :: tensor
  defines "gA \<equiv> GenA self" and "gB \<equiv> GenB self"
  defines "fb \<equiv> net_output w gA ra" and "fa \<equiv> net_output w gB rb"
  defines "na \<equiv> net_output w gB fb" and "nb \<equiv> net_output w gA fa"
  assumes attrs: "DisA self = Some dA" "DisB self = Some dB"
      "criterionGAN self = Some BCELoss" "optimizer_g self = Some og"
    and inputs: "real_A self = Some ra" "real_B self = Some rb"
    and shapes: "accepts w (net_id gA) ra" "accepts w (net_id gB) fb"
      "accepts w (net_id gB) rb" "accepts w (net_id gA) fa" "accepts w (net_id dA) fb"
  shows "train (self, w) =
           (Inl AttributeError,
            self\<lparr>fake_B := Some fb, new_A := Some na, fake_A := Some fa, new_B := Some nb\<rparr>,
            emit (Call (net_id dA) fb)
              (zero_grad og
                 (set_requires_grad [Some dA, Some dB] False
                    (w\<lparr>trace := trace w @ [Call (net_id gA) ra, Call (net_id gB) fb,
                                           Call (net_id gB) rb, Call (net_id gA) fa]\<rparr>))))"
proof -
  define self1 where
    "self1 = self\<lparr>fake_B := Some fb, new_A := Some na, fake_A := Some fa, new_B := Some nb\<rparr>"
  define w1 where
    "w1 = w\<lparr>trace := trace w @ [Call (net_id gA) ra, Call (net_id gB) fb,
                                  Call (net_id gB) rb, Call (net_id gA) fa]\<rparr>"
  have s1: "forward (self, w) = (Inr (), self1, w1)"
    using shapes(1-4) unfolding self1_def w1_def fb_def fa_def na_def nb_def gA_def gB_def
    by (simp add: forward_def action_defs call_def emit_def inputs)
  have a1: "DisA self1 = Some dA" "DisB self1 = Some dB" "criterionGAN self1 = Some BCELoss"
    "optimizer_g self1 = Some og" "fake_B self1 = Some fb"
    by (simp_all add: self1_def attrs)
  define w2 where "w2 = set_requires_grad [Some dA, Some dB] False w1"
  have s2: "and_then (attr DisA) (\<lambda>a. and_then (attr DisB) (\<lambda>b.
              effect (set_requires_grad [Some a, Some b] False))) (self1, w1) = (Inr (), self1, w2)"
    by (simp add: action_defs a1 w2_def)
  define w3 where "w3 = zero_grad og w2"
  have s3: "and_then (attr optimizer_g) (\<lambda>opt. effect (zero_grad opt)) (self1, w2)
              = (Inr (), self1, w3)"
    by (simp add: action_defs a1 w3_def)
  have "accepts w3 (net_id dA) fb"
    by (simp add: w3_def w2_def w1_def shapes)
  then have s4: "backward_g (self1, w3) = (Inl AttributeError, self1, emit (Call (net_id dA) fb) w3)"
    using backward_g_stops [of "(self1, w3)" dA fb] by (simp add: a1 emit_def)
  have "train (self, w) = (Inl AttributeError, self1, emit (Call (net_id dA) fb) w3)"
    by (simp only: train_def block_step s1 s2 s3 s4 prod.case sum.case)
  then show ?thesis by (simp only: self1_def w3_def w2_def w1_def)
qed

text \<open>A training controller that was given inputs.\<close>

lemma example_input:
  "fold invoke [SetInput (Batch 0) (Batch 1)]
     (trainer, fresh_world\<lparr>next_param := 6, next_net := 4\<rparr>) =
   (trainer\<lparr>real_A := Some (To ''cpu'' (Batch 0)), real_B := Some (To ''cpu'' (Batch 1))\<rparr>,
    fresh_world\<lparr>next_param := 6, next_net := 4\<rparr>)"
  by (simp add: set_input_def action_defs trainer_def sampler_def fresh_world_def term_defs)

text \<open>
  C1. \<^verbatim>\<open>train()\<close> does not perform the ten operations: it ends in the exception that
  \<^verbatim>\<open>backward_g()\<close> raises, the fourth of them. The criterion of a constructed controller is
  \<^verbatim>\<open>nn.BCELoss\<close>, which raises \<^verbatim>\<open>AttributeError\<close> on the \<^verbatim>\<open>bool\<close> target that line 81
  hands it, and no method assigns the attribute again. So on every controller the constructor
  builds, at every moment of its lifetime, every call of \<^verbatim>\<open>train()\<close> ends in an exception.
  On a training controller that has its two inputs, when the networks take what they are given,
  the exception is that \<^verbatim>\<open>AttributeError\<close>, and the calls made to the substrate are exactly
  these: the four generator calls of \<^verbatim>\<open>forward()\<close>; gradient tracking off for every parameter
  of DisA, then of DisB; the generator optimiser's \<^verbatim>\<open>zero_grad\<close>; the call \<^verbatim>\<open>DisA(fake_B)\<close>.
  There is no backward pass and no optimiser step, no weight has changed, and the discriminators
  are left with gradient tracking off.
\<close>

theorem train_raises:
  fixes calls :: "invocation list" and dA dB :: net and og :: optimizer and ra rb :: tensor
  assumes "init opts dev prefix rate b1 training w0 = (Inr self, w)"
  defines "s \<equiv> fold invoke calls (self, w)"
  defines "gA \<equiv> GenA (fst s)" and "gB \<equiv> GenB (fst s)"
  defines "fb \<equiv> net_output (snd s) gA ra" and "fa \<equiv> net_output (snd s) gB rb"
  defines "na \<equiv> net_output (snd s) gB fb" and "nb \<equiv> net_output (snd s) gA fa"
  shows "(\<exists>e. fst (train s) = Inl e)
         \<and> (training \<and> real_A (fst s) = Some ra \<and> real_B (fst s) = Some rb
            \<and> DisA (fst s) = Some dA \<and> DisB (fst s) = Some dB \<and> optimizer_g (fst s) = Some og
            \<and> accepts (snd s) (net_id gA) ra \<and> accepts (snd s) (net_id gB) fb
            \<and> accepts (snd s) (net_id gB) rb \<and> accepts (snd s) (net_id gA) fa
            \<and> accepts (snd s) (net_id dA) fb
            \<longrightarrow> fst (train s) = Inl AttributeError
                \<and> trace (snd (snd (train s))) =
                    trace (snd s) @ [Call (net_id gA) ra, Call (net_id gB) fb,
                                     Call (net_id gB) rb, Call (net_id gA) fa]
                      @ map (\<lambda>p. RequiresGrad p False) (net_params dA @ net_params dB)
                      @ [ZeroGrad (opt_params og), Call (net_id dA) fb]
                \<and> (\<forall>p. weight (params (snd (snd (train s))) p) = weight (params (snd s) p))
                \<and> (\<forall>p \<in> set (net_params dA @ net_params dB).
                      \<not> requires_grad (params (snd (snd (train s))) p)))"
proof -
  have c: "criterionGAN (fst s) = (if training then Some BCELoss else None)"
    unfolding s_def by (rule criterion_lifetime [OF assms(1)])
  then have "criterionGAN (fst s) \<noteq> Some FlagLoss" by simp
  from fails_whenD [OF train_never_returns, of s, OF this]
  have never: "\<exists>e. fst (train s) = Inl e" .
  have exact: "fst (train s) = Inl AttributeError
                \<and> trace (snd (snd (train s))) =
                    trace (snd s) @ [Call (net_id gA) ra, Call (net_id gB) fb,
                                     Call (net_id gB) rb, Call (net_id gA) fa]
                      @ map (\<lambda>p. RequiresGrad p False) (net_params dA @ net_params dB)
                      @ [ZeroGrad (opt_params og), Call (net_id dA) fb]
                \<and> (\<forall>p. weight (params (snd (snd (train s))) p) = weight (params (snd s) p))
                \<and> (\<forall>p \<in> set (net_params dA @ net_params dB).
                      \<not> requires_grad (params (snd (snd (train s))) p))"
    if h: "training" "real_A (fst s) = Some ra" "real_B (fst s) = Some rb"
       "DisA (fst s) = Some dA" "DisB (fst s) = Some dB" "optimizer_g (fst s) = Some og"
       "accepts (snd s) (net_id gA) ra" "accepts (snd s) (net_id gB) fb"
       "accepts (snd s) (net_id gB) rb" "accepts (snd s) (net_id gA) fa"
       "accepts (snd s) (net_id dA) fb"
  proof -
    from c h(1) have cg: "criterionGAN (fst s) = Some BCELoss" by simp
    have "train (fst s, snd s) =
           (Inl AttributeError,
            (fst s)\<lparr>fake_B := Some fb, new_A := Some na, fake_A := Some fa, new_B := Some nb\<rparr>,
            emit (Call (net_id dA) fb)
              (zero_grad og
                 (set_requires_grad [Some dA, Some dB] False
                    ((snd s)\<lparr>trace := trace (snd s) @ [Call (net_id gA) ra, Call (net_id gB) fb,
                                           Call (net_id gB) rb, Call (net_id gA) fa]\<rparr>))))"
      using train_stops [where self = "fst s" and w = "snd s", OF h(4,5) cg h(6) h(2,3)] h(7-11)
      unfolding fb_def fa_def na_def nb_def gA_def gB_def
      by simp
    then show ?thesis
      by (simp add: emit_def set_requires_grad_flag)
  qed
  from never exact show ?thesis by blast
qed

theorem train_raises_witness:
  "init () ''cpu'' ''run/'' (1 / 5000) (1 / 2) True fresh_world =
     (Inr trainer, fresh_world\<lparr>next_param := 6, next_net := 4\<rparr>)
   \<and> accepts fresh_world 2 (Out 0 [Init 0, Init 1] [0, 1] (To ''cpu'' (Batch 0)))
   \<and> fst (train (fold invoke [SetInput (Batch 0) (Batch 1)]
                   (trainer, fresh_world\<lparr>next_param := 6, next_net := 4\<rparr>)))
       = Inl AttributeError
   \<and> trace (snd (snd (train (fold invoke [SetInput (Batch 0) (Batch 1)]
                                (trainer, fresh_world\<lparr>next_param := 6, next_net := 4\<rparr>)))))
       = [Call 0 (To ''cpu'' (Batch 0)),
          Call 1 (Out 0 [Init 0, Init 1] [0, 1] (To ''cpu'' (Batch 0))),
          Call 1 (To ''cpu'' (Batch 1)),
          Call 0 (Out 1 [Init 2, Init 3] [2, 3] (To ''cpu'' (Batch 1))),
          RequiresGrad 4 False, RequiresGrad 5 False, ZeroGrad [0, 1, 2, 3],
          Call 2 (Out 0 [Init 0, Init 1] [0, 1] (To ''cpu'' (Batch 0)))]"
  using train_raises
          [OF init_trainer [of "()"], where calls = "[SetInput (Batch 0) (Batch 1)]"
             and dA = "\<lparr>net_id = 2, net_params = [4]\<rparr>" and dB = "\<lparr>net_id = 3, net_params = [5]\<rparr>"
             and og = "\<lparr>opt_params = [0, 1, 2, 3], lr = 1 / 5000, betas = (1 / 2, 999 / 1000)\<rparr>"
             and ra = "To ''cpu'' (Batch 0)" and rb = "To ''cpu'' (Batch 1)"]
        init_trainer [of "()"]
  unfolding example_input
  by (simp add: trainer_def sampler_def fresh_world_def term_defs)

text \<open>
  The order the ten statements of \<^verbatim>\<open>train()\<close> are written in shows with a criterion that
  takes the flag. On a controller that has its training attributes and its two inputs, with
  gradient tracking on, a generator parameter and a parameter of each discriminator to reach, and
  networks that take their inputs, \<^verbatim>\<open>train()\<close> returns, and the calls it makes to the substrate
  are: the four generator calls of \<^verbatim>\<open>forward()\<close>; gradient tracking off for every parameter of
  DisA, then of DisB; the generator optimiser's \<^verbatim>\<open>zero_grad\<close>; the two discriminator calls and
  the backward pass of \<^verbatim>\<open>backward_g()\<close>; the generator optimiser's step; gradient tracking on
  for every parameter of DisA, then of DisB; the discriminator optimiser's \<^verbatim>\<open>zero_grad\<close>; the
  two calls and the backward pass of \<^verbatim>\<open>backward_d(DisA, real_B, fake_B)\<close>, then those of
  \<^verbatim>\<open>backward_d(DisB, real_A, fake_A)\<close>; the discriminator optimiser's step.
\<close>

lemma train_with_flag_criterion:
  fixes self :: cyclegan and w :: world and dA dB :: net and cc :: lossfn
    and og od :: optimizer and ra rb :: tensor
  defines "gA \<equiv> GenA self" and "gB \<equiv> GenB self"
  defines "fb \<equiv> Out (net_id gA) (state_dict gA w) (tracked gA w) ra"
      and "fa \<equiv> Out (net_id gB) (state_dict gB w) (tracked gB w) rb"
  defines "na \<equiv> Out (net_id gB) (state_dict gB w) (tracked gB w) fb"
      and "nb \<equiv> Out (net_id gA) (state_dict gA w) (tracked gA w) fa"
  defines "lG \<equiv> Add (Add (Add (CritFlag FlagLoss (Out (net_id dA) (state_dict dA w) [] fb) True)
                               (CritFlag FlagLoss (Out (net_id dB) (state_dict dB w) [] fa) True))
                          (Scale (CritPair cc na ra) (lambda_A self)))
                     (Scale (CritPair cc nb rb) (lambda_B self))"
  defines "ldA \<equiv> Scale (Add (CritFlag FlagLoss
                               (Out (net_id dA) (state_dict dA w) (net_params dA) rb) True)
                            (CritFlag FlagLoss
                               (Out (net_id dA) (state_dict dA w) (net_params dA) (Detach fb))
                               False))
                       (1 / 2)"
      and "ldB \<equiv> Scale (Add (CritFlag FlagLoss
                               (Out (net_id dB) (state_dict dB w) (net_params dB) ra) True)
                            (CritFlag FlagLoss
                               (Out (net_id dB) (state_dict dB w) (net_params dB) (Detach fa))
                               False))
                       (1 / 2)"
  assumes attrs: "DisA self = Some dA" "DisB self = Some dB"
      "criterionGAN self = Some FlagLoss" "criterionCycle self = Some cc"
      "optimizer_g self = Some og" "optimizer_d self = Some od"
    and inputs: "real_A self = Some ra" "real_B self = Some rb"
    and mode: "grad_enabled w"
    and reach: "tracked gA w \<noteq> []" "net_params dA \<noteq> []" "net_params dB \<noteq> []"
    and shapes: "accepts w (net_id gA) ra" "accepts w (net_id gB) fb"
      "accepts w (net_id gB) rb" "accepts w (net_id gA) fa"
      "accepts w (net_id dA) fb" "accepts w (net_id dB) fa"
      "accepts w (net_id dA) rb" "accepts w (net_id dA) (Detach fb)"
      "accepts w (net_id dB) ra" "accepts w (net_id dB) (Detach fa)"
    and wiring: "set (opt_params og) \<inter> (set (net_params dA) \<union> set (net_params dB)) = {}"
  shows "fst (train (self, w)) = Inr ()
       \<and> trace (snd (snd (train (self, w)))) =
           trace w @ [Call (net_id gA) ra, Call (net_id gB) fb,
                      Call (net_id gB) rb, Call (net_id gA) fa]
             @ map (\<lambda>p. RequiresGrad p False) (net_params dA @ net_params dB)
             @ [ZeroGrad (opt_params og),
                Call (net_id dA) fb, Call (net_id dB) fa, Backward lG,
                Step (opt_params og)]
             @ map (\<lambda>p. RequiresGrad p True) (net_params dA @ net_params dB)
             @ [ZeroGrad (opt_params od),
                Call (net_id dA) rb, Call (net_id dA) (Detach fb), Backward ldA,
                Call (net_id dB) ra, Call (net_id dB) (Detach fa), Backward ldB,
                Step (opt_params od)]
       \<and> loss_G (fst (snd (train (self, w)))) = Some lG
       \<and> loss_disA (fst (snd (train (self, w)))) = Some ldA
       \<and> loss_disB (fst (snd (train (self, w)))) = Some ldB"
proof -
  have og_dA: "set (opt_params og) \<inter> set (net_params dA) = {}"
    and og_dB: "set (opt_params og) \<inter> set (net_params dB) = {}"
    using wiring by blast+
  have sub: "set (net_params dA) \<subseteq> set (parameters_of [Some dA, Some dB])"
    "set (net_params dB) \<subseteq> set (parameters_of [Some dA, Some dB])"
    by simp_all
  have reaches: "leaves fb \<noteq> {}"
    using reach(1) by (simp add: fb_def)

  define self1 where
    "self1 = self\<lparr>fake_B := Some fb, new_A := Some na, fake_A := Some fa, new_B := Some nb\<rparr>"
  define w1 where
    "w1 = w\<lparr>trace := trace w @ [Call (net_id gA) ra, Call (net_id gB) fb,
                                  Call (net_id gB) rb, Call (net_id gA) fa]\<rparr>"
  have s1: "forward (self, w) = (Inr (), self1, w1)"
    using shapes(1-4)
    unfolding self1_def w1_def fb_def fa_def na_def nb_def gA_def gB_def
    by (simp add: forward_def action_defs call_def emit_def net_output_def
          record_op_on [OF mode] inputs)
  have a1: "DisA self1 = Some dA" "DisB self1 = Some dB" "criterionGAN self1 = Some FlagLoss"
    "criterionCycle self1 = Some cc" "optimizer_g self1 = Some og" "optimizer_d self1 = Some od"
    "real_A self1 = Some ra" "real_B self1 = Some rb" "fake_A self1 = Some fa"
    "fake_B self1 = Some fb" "new_A self1 = Some na" "new_B self1 = Some nb"
    "lambda_A self1 = lambda_A self" "lambda_B self1 = lambda_B self"
    by (simp_all add: self1_def attrs inputs)

  define w2 where "w2 = set_requires_grad [Some dA, Some dB] False w1"
  have s2: "and_then (attr DisA) (\<lambda>a. and_then (attr DisB) (\<lambda>b.
              effect (set_requires_grad [Some a, Some b] False))) (self1, w1) = (Inr (), self1, w2)"
    by (simp add: action_defs a1 w2_def)
  define w3 where "w3 = zero_grad og w2"
  have s3: "and_then (attr optimizer_g) (\<lambda>opt. effect (zero_grad opt)) (self1, w2)
              = (Inr (), self1, w3)"
    by (simp add: action_defs a1 w3_def)
  have w3: "grad_enabled w3" "accepts w3 = accepts w" "state_dict dA w3 = state_dict dA w"
    "state_dict dB w3 = state_dict dB w" "tracked dA w3 = []" "tracked dB w3 = []"
    by (simp_all add: w3_def w2_def w1_def mode tracked_set_requires_grad [OF sub(1)]
          tracked_set_requires_grad [OF sub(2)])

  define self4 where
    "self4 = self1\<lparr>loss_genA := Some (CritFlag FlagLoss
                                        (Out (net_id dA) (state_dict dA w) [] fb) True),
                   loss_genB := Some (CritFlag FlagLoss
                                        (Out (net_id dB) (state_dict dB w) [] fa) True),
                   loss_cycle_A := Some (Scale (CritPair cc na ra) (lambda_A self)),
                   loss_cycle_B := Some (Scale (CritPair cc nb rb) (lambda_B self)),
                   loss_G := Some lG\<rparr>"
  define w4 where
    "w4 = accumulate lG (w3\<lparr>trace := trace w3 @ [Call (net_id dA) fb, Call (net_id dB) fa]\<rparr>)"
  have s4: "backward_g (self1, w3) = (Inr (), self4, w4)"
    unfolding self4_def w4_def lG_def
    by (simp add: backward_g_def action_defs call_def criterion_flag_def criterion_pair_def
          backward_def emit_def a1 w3 shapes terms_on reaches)
  have a4: "DisA self4 = Some dA" "DisB self4 = Some dB" "criterionGAN self4 = Some FlagLoss"
    "optimizer_g self4 = Some og" "optimizer_d self4 = Some od"
    "real_A self4 = Some ra" "real_B self4 = Some rb" "fake_A self4 = Some fa"
    "fake_B self4 = Some fb"
    by (simp_all add: self4_def a1)

  define w5 where "w5 = step og w4"
  have s5: "and_then (attr optimizer_g) (\<lambda>opt. effect (step opt)) (self4, w4)
              = (Inr (), self4, w5)"
    by (simp add: action_defs a4 w5_def)
  define w6 where "w6 = set_requires_grad [Some dA, Some dB] True w5"
  have s6: "and_then (attr DisA) (\<lambda>a. and_then (attr DisB) (\<lambda>b.
              effect (set_requires_grad [Some a, Some b] True))) (self4, w5) = (Inr (), self4, w6)"
    by (simp add: action_defs a4 w6_def)
  define w7 where "w7 = zero_grad od w6"
  have s7: "and_then (attr optimizer_d) (\<lambda>opt. effect (zero_grad opt)) (self4, w6)
              = (Inr (), self4, w7)"
    by (simp add: action_defs a4 w7_def)
  have w7: "grad_enabled w7" "accepts w7 = accepts w" "state_dict dA w7 = state_dict dA w"
    "state_dict dB w7 = state_dict dB w" "tracked dA w7 = net_params dA"
    "tracked dB w7 = net_params dB"
    by (simp_all add: w7_def w6_def w5_def w4_def w3_def w2_def w1_def mode
          state_dict_step [OF og_dA] state_dict_step [OF og_dB]
          tracked_set_requires_grad [OF sub(1)] tracked_set_requires_grad [OF sub(2)])

  define w8 where
    "w8 = accumulate ldA (w7\<lparr>trace := trace w7 @ [Call (net_id dA) rb,
                                                      Call (net_id dA) (Detach fb)]\<rparr>)"
  have b8: "backward_d dA (Some rb) (Some fb) (self4, w7) = (Inr ldA, self4, w8)"
    unfolding w8_def ldA_def
    by (simp add: backward_d_def action_defs call_def criterion_flag_def backward_def emit_def
          a4 w7 shapes terms_on reach)
  define self8 where "self8 = self4\<lparr>loss_disA := Some ldA\<rparr>"
  have s8: "and_then (attr DisA) (\<lambda>d.
            and_then (\<lambda>s. backward_d d (real_B (fst s)) (fake_B (fst s)) s) (\<lambda>l.
            assign (loss_disA_update (\<lambda>_. Some l)))) (self4, w7) = (Inr (), self8, w8)"
    by (simp add: and_then_def attr_def assign_def a4 b8 self8_def)
  have a8: "DisB self8 = Some dB" "criterionGAN self8 = Some FlagLoss"
    "optimizer_d self8 = Some od" "real_A self8 = Some ra" "fake_A self8 = Some fa"
    by (simp_all add: self8_def a4)
  have w8: "grad_enabled w8" "accepts w8 = accepts w" "state_dict dB w8 = state_dict dB w"
    "tracked dB w8 = net_params dB"
    by (simp_all add: w8_def w7)

  define w9 where
    "w9 = accumulate ldB (w8\<lparr>trace := trace w8 @ [Call (net_id dB) ra,
                                                      Call (net_id dB) (Detach fa)]\<rparr>)"
  have b9: "backward_d dB (Some ra) (Some fa) (self8, w8) = (Inr ldB, self8, w9)"
    unfolding w9_def ldB_def
    by (simp add: backward_d_def action_defs call_def criterion_flag_def backward_def emit_def
          a8 w8 shapes terms_on reach)
  define self9 where "self9 = self8\<lparr>loss_disB := Some ldB\<rparr>"
  have s9: "and_then (attr DisB) (\<lambda>d.
            and_then (\<lambda>s. backward_d d (real_A (fst s)) (fake_A (fst s)) s) (\<lambda>l.
            assign (loss_disB_update (\<lambda>_. Some l)))) (self8, w8) = (Inr (), self9, w9)"
    by (simp add: and_then_def attr_def assign_def a8 b9 self9_def)
  have a9: "optimizer_d self9 = Some od"
    by (simp add: self9_def a8)
  define w10 where "w10 = step od w9"
  have s10: "and_then (attr optimizer_d) (\<lambda>opt. effect (step opt)) (self9, w9)
              = (Inr (), self9, w10)"
    by (simp add: action_defs a9 w10_def)

  have "train (self, w) = (Inr (), self9, w10)"
    by (simp only: train_def block_step block.simps(1) s1 s2 s3 s4 s5 s6 s7 s8 s9 s10
          prod.case sum.case)
  moreover have "trace w10 =
           trace w @ [Call (net_id gA) ra, Call (net_id gB) fb,
                      Call (net_id gB) rb, Call (net_id gA) fa]
             @ map (\<lambda>p. RequiresGrad p False) (net_params dA @ net_params dB)
             @ [ZeroGrad (opt_params og),
                Call (net_id dA) fb, Call (net_id dB) fa, Backward lG,
                Step (opt_params og)]
             @ map (\<lambda>p. RequiresGrad p True) (net_params dA @ net_params dB)
             @ [ZeroGrad (opt_params od),
                Call (net_id dA) rb, Call (net_id dA) (Detach fb), Backward ldA,
                Call (net_id dB) ra, Call (net_id dB) (Detach fa), Backward ldB,
                Step (opt_params od)]"
    by (simp add: w10_def w9_def w8_def w7_def w6_def w5_def w4_def w3_def w2_def w1_def)
  moreover have "loss_G self9 = Some lG" "loss_disA self9 = Some ldA" "loss_disB self9 = Some ldB"
    by (simp_all add: self9_def self8_def self4_def)
  ultimately show ?thesis by simp
qed

end
